theory Spec2Isabelle
  imports Main "HOL-Library.Sublist"
begin

section \<open>Checkpointing of a Megatron training run: a shallow embedding\<close>

text \<open>
  The definitions follow \<^verbatim>\<open>megatron/training/checkpointing.py\<close>. Python exceptions and
  \<^verbatim>\<open>sys.exit()\<close> are values of the type \<open>exn\<close>; a function that can raise returns
  \<open>exn + 'a\<close>. Whatever the module prints is kept as a list of \<open>message\<close>s, one
  constructor for each print statement of the source. Collaborators that are imported from
  elsewhere (\<^verbatim>\<open>mpu\<close>, \<^verbatim>\<open>torch.distributed\<close>, the file system, the async queue) are explicit
  parameters. Iteration numbers are Python integers, hence \<open>int\<close>; strings are lists of
  characters with code points below 256.
\<close>

subsection \<open>Exceptions\<close>

datatype exn =
    SystemExit
  | AssertionError
  | RuntimeError
  | NotImplementedError
  | FileNotFoundError
  | TypeError
  | KeyError
  | CheckpointingException string
  | StrategyException

subsection \<open>The module-level checkpoint version\<close>

text \<open>
  \<^verbatim>\<open>_CHECKPOINT_VERSION = None\<close> is the initial state of the global; \<open>None\<close> is the
  module's marker for ``not set yet'', so the argument of \<open>set_checkpoint_version\<close> ranges
  over the values that are not \<open>None\<close> (the numbers \<^verbatim>\<open>state_dict.get('checkpoint_version', 0)\<close>
  yields). The global is passed in and returned.
\<close>

definition initial_checkpoint_version :: "'v option" where
  "initial_checkpoint_version = None"

definition set_checkpoint_version :: "'v \<Rightarrow> 'v option \<Rightarrow> exn + 'v option" where
  "set_checkpoint_version val g =
     (case g of
        Some cur \<Rightarrow> if cur = val then Inr (Some val) else Inl AssertionError
      | None \<Rightarrow> Inr (Some val))"

definition get_checkpoint_version :: "'v option \<Rightarrow> 'v option" where
  "get_checkpoint_version g = g"

text \<open>A sequence of calls of \<open>set_checkpoint_version\<close>; the first failed assertion ends it.\<close>

fun set_checkpoint_versions :: "'v list \<Rightarrow> 'v option \<Rightarrow> exn + 'v option" where
  "set_checkpoint_versions [] g = Inr g"
| "set_checkpoint_versions (v # vs) g =
     (case set_checkpoint_version v g of
        Inl e \<Rightarrow> Inl e
      | Inr g' \<Rightarrow> set_checkpoint_versions vs g')"

subsection \<open>Python's string operations used by the module\<close>

text \<open>\<^verbatim>\<open>str(n)\<close> for a natural number: its decimal digits.\<close>

definition digit_char :: "nat \<Rightarrow> char" where
  "digit_char d = ''0123456789'' ! d"

fun str_nat :: "nat \<Rightarrow> string" where
  "str_nat n = (if n < 10 then [digit_char n] else str_nat (n div 10) @ [digit_char (n mod 10)])"

declare str_nat.simps [simp del]

definition str_int :: "int \<Rightarrow> string" where
  "str_int i = (if i < 0 then ''-'' @ str_nat (nat (- i)) else str_nat (nat i))"

text \<open>
  The format specification \<^verbatim>\<open>{:0Wd}\<close>: the digits are padded with zeros on the left up to
  the width \<open>W\<close>; a minus sign comes first and counts towards the width; nothing is cut off.
\<close>

definition zfill :: "nat \<Rightarrow> string \<Rightarrow> string" where
  "zfill w s = replicate (w - length s) (CHR ''0'') @ s"

definition format_0d :: "nat \<Rightarrow> int \<Rightarrow> string" where
  "format_0d w i =
     (if i < 0 then ''-'' @ zfill (w - 1) (str_nat (nat (- i))) else zfill w (str_nat (nat i)))"

text \<open>
  \<^verbatim>\<open>os.path.join(a, *p)\<close> of \<^verbatim>\<open>posixpath\<close>: a component that starts with a slash replaces
  the path so far; otherwise it is appended, after a slash unless the path so far is empty
  or already ends with one.
\<close>

definition join_step :: "string \<Rightarrow> string \<Rightarrow> string" where
  "join_step path b =
     (if b \<noteq> [] \<and> hd b = CHR ''/'' then b
      else if path = [] \<or> last path = CHR ''/'' then path @ b
      else path @ ''/'' @ b)"

definition os_path_join :: "string \<Rightarrow> string list \<Rightarrow> string" where
  "os_path_join a p = foldl join_step a p"

text \<open>
  \<^verbatim>\<open>str.strip()\<close>: the white space of Python below code point 256 is removed at both ends.
\<close>

definition is_space :: "char \<Rightarrow> bool" where
  "is_space c = (let n = (of_char c :: nat) in (9 \<le> n \<and> n \<le> 13) \<or> (28 \<le> n \<and> n \<le> 32) \<or> n = 133 \<or> n = 160)"

definition strip :: "string \<Rightarrow> string" where
  "strip s = rev (dropWhile is_space (rev (dropWhile is_space s)))"

text \<open>
  \<^verbatim>\<open>int(s)\<close> in base ten: white space around the literal is ignored, a sign may come first,
  then digits, where single underscores may stand between two digits. \<open>None\<close> is the
  \<^verbatim>\<open>ValueError\<close>.
\<close>

definition is_digit :: "char \<Rightarrow> bool" where
  "is_digit c = (let n = (of_char c :: nat) in 48 \<le> n \<and> n \<le> 57)"

definition digit_val :: "char \<Rightarrow> nat" where
  "digit_val c = of_char c - 48"

fun int_digits :: "bool \<Rightarrow> nat \<Rightarrow> string \<Rightarrow> nat option" where
  "int_digits prev acc [] = (if prev then Some acc else None)"
| "int_digits prev acc (c # cs) =
     (if is_digit c then int_digits True (10 * acc + digit_val c) cs
      else if c = CHR ''_'' \<and> prev then int_digits False acc cs
      else None)"

definition py_int :: "string \<Rightarrow> int option" where
  "py_int s =
     (case strip s of
        [] \<Rightarrow> None
      | c # cs \<Rightarrow>
          if c = CHR ''-'' then map_option (\<lambda>n. - int n) (int_digits False 0 cs)
          else if c = CHR ''+'' then map_option int (int_digits False 0 cs)
          else map_option int (int_digits False 0 (c # cs)))"

subsection \<open>Names of checkpoints\<close>

text \<open>
  The directory prefix \<^verbatim>\<open>d/\<close> that \<^verbatim>\<open>os.path.join(d, x)\<close> puts before a relative \<open>x\<close>:
  no slash is added to an empty \<open>d\<close> or to one that ends with a slash.
\<close>

definition below :: "string \<Rightarrow> string" where
  "below d = (if d = [] \<or> last d = CHR ''/'' then d else d @ ''/'')"

text \<open>The ranks and sizes \<^verbatim>\<open>megatron.core.mpu\<close> reports for this process.\<close>

record mpu_state =
  pipeline_model_parallel_world_size :: int
  tensor_model_parallel_rank :: int
  pipeline_model_parallel_rank :: int
  expert_model_parallel_world_size :: int
  expert_model_parallel_rank :: int

text \<open>
  The keyword arguments of \<open>get_checkpoint_name\<close>; \<open>None\<close> is Python's \<^verbatim>\<open>None\<close>, which
  makes the function ask \<^verbatim>\<open>mpu\<close>. \<open>default_name_args\<close> are the defaults of the signature.
\<close>

record name_args =
  release :: bool
  pipeline_parallel :: "bool option"
  tensor_rank :: "int option"
  pipeline_rank :: "int option"
  expert_parallel :: "bool option"
  expert_rank :: "int option"
  return_base_dir :: bool
  basename :: string

definition default_name_args :: name_args where
  "default_name_args =
     \<lparr> release = False, pipeline_parallel = None, tensor_rank = None, pipeline_rank = None,
       expert_parallel = None, expert_rank = None, return_base_dir = False,
       basename = ''model_optim_rng.pt'' \<rparr>"

definition get_checkpoint_name :: "mpu_state \<Rightarrow> string \<Rightarrow> int \<Rightarrow> name_args \<Rightarrow> string" where
  "get_checkpoint_name mpu checkpoints_path iteration kw =
     (let directory = (if release kw then ''release'' else ''iter_'' @ format_0d 7 iteration) in
      if return_base_dir kw then os_path_join checkpoints_path [directory]
      else
        let pipeline_parallel' = (case pipeline_parallel kw of
                                    None \<Rightarrow> pipeline_model_parallel_world_size mpu > 1
                                  | Some b \<Rightarrow> b);
            tensor_rank' = (case tensor_rank kw of
                              None \<Rightarrow> tensor_model_parallel_rank mpu | Some r \<Rightarrow> r);
            pipeline_rank' = (case pipeline_rank kw of
                                None \<Rightarrow> pipeline_model_parallel_rank mpu | Some r \<Rightarrow> r);
            expert_parallel' = (case expert_parallel kw of
                                  None \<Rightarrow> expert_model_parallel_world_size mpu > 1
                                | Some b \<Rightarrow> b);
            expert_rank' = (case expert_rank kw of
                              None \<Rightarrow> expert_model_parallel_rank mpu | Some r \<Rightarrow> r);
            common_path =
              (if \<not> pipeline_parallel'
               then os_path_join checkpoints_path
                      [directory, ''mp_rank_'' @ format_0d 2 tensor_rank']
               else os_path_join checkpoints_path
                      [directory,
                       ''mp_rank_'' @ format_0d 2 tensor_rank' @ ''_'' @ format_0d 3 pipeline_rank']);
            common_path' =
              (if expert_parallel' then common_path @ ''_'' @ format_0d 3 expert_rank'
               else common_path)
        in os_path_join common_path' [basename kw])"

definition get_checkpoint_tracker_filename :: "string \<Rightarrow> string" where
  "get_checkpoint_tracker_filename checkpoints_path =
     os_path_join checkpoints_path [''latest_checkpointed_iteration.txt'']"

subsection \<open>Output, exceptions and the collaborators\<close>

text \<open>
  One constructor for each message the modelled functions print; the comment gives the
  text of the source.
\<close>

datatype message =
    Err_invalid_metadata_file string
      \<comment> \<open>\<^verbatim>\<open>ERROR: Invalid metadata file {}. Exiting\<close>\<close>
  | Warn_iteration_replaced_by_max nat int int
      \<comment> \<open>\<^verbatim>\<open>WARNING: on rank {} found iteration {} in the metadata while max iteration across the ranks is {}, replacing it with max iteration.\<close>\<close>
  | Warn_no_metadata_file string
      \<comment> \<open>\<^verbatim>\<open>WARNING: could not find the metadata file {}\<close>\<close>
  | Info_no_non_persistent_load
      \<comment> \<open>\<^verbatim>\<open>    will not load any non-persistent checkpoint\<close>\<close>
  | Warn_non_persistent_older
      \<comment> \<open>\<^verbatim>\<open>WARNING: non-persistent checkpoints are older than persistent checkpoint\<close>\<close>
  | Info_start_from_random
      \<comment> \<open>\<^verbatim>\<open>    will not load any checkpoints and will start from random\<close>\<close>
  | Info_exit_on_missing_checkpoint
      \<comment> \<open>\<^verbatim>\<open>>> '--exit-on-missing-checkpoint' set ... exiting. <<\<close>\<close>
  | Info_loading_modelopt "string option"
      \<comment> \<open>\<^verbatim>\<open>Loading checkpoint using ModelOpt format from {}\<close>\<close>
  | Info_finetune_from_pretrained "string option" string
      \<comment> \<open>\<^verbatim>\<open>Checkpoint file not found in load directory {} attempting to finetune with checkpoint in {}\<close>\<close>
  | Warn_tp_pp_mismatch_rng "int \<times> int" "int \<times> int"
      \<comment> \<open>\<^verbatim>\<open>(TP, PP) mismatch after resume ({} vs {} from checkpoint): RNG state will be ignored\<close>\<close>
  | Info_sharded_sd_metadata "string option option"
      \<comment> \<open>\<^verbatim>\<open>sharded_state_dict metadata loaded from the checkpoint: {}\<close>\<close>
  | Warn_job_sharding_changed
      \<comment> \<open>\<^verbatim>\<open>Job sharding has changed: Rerun state will be ignored\<close>\<close>
  | Err_no_iteration_in_checkpoint string
      \<comment> \<open>\<^verbatim>\<open>A metadata file exists but unable to load iteration from checkpoint {}, exiting\<close>\<close>
  | Info_loaded_checkpoint "string option" int
      \<comment> \<open>\<^verbatim>\<open>  successfully loaded checkpoint from {} [ t ../.., p ../.. ] at iteration {}\<close>\<close>
  | Warn_save_before_previous_finished
      \<comment> \<open>\<^verbatim>\<open>WARNING: Starting a checkpoint save before previous has finished. Consider increasing the checkpoint interval.\<close>\<close>
  | Info_saving_checkpoint int string string
      \<comment> \<open>\<^verbatim>\<open>saving checkpoint at iteration {:7d} to {} in {} format\<close>\<close>
  | Info_storing_distributed_optimizer_state
      \<comment> \<open>\<^verbatim>\<open>Storing distributed optimizer sharded state of type {}\<close>\<close>
  | Info_scheduled_async_save int string
      \<comment> \<open>\<^verbatim>\<open>  scheduled an async checkpoint save at iteration {:7d} to {}\<close>\<close>

text \<open>
  What a function does besides returning: \<open>PrintRank0\<close> is a call of
  \<^verbatim>\<open>print_rank_0\<close>, \<open>Print\<close> a call of \<^verbatim>\<open>print\<close>, \<open>Barrier\<close> a call of
  \<^verbatim>\<open>torch.distributed.barrier()\<close>. The next five events are the calls by which
  \<open>load_checkpoint\<close> hands the loaded state to its collaborators:
  \<^verbatim>\<open>load_modelopt_checkpoint\<close>, the model's \<^verbatim>\<open>load_state_dict\<close>, the loading of the
  optimizer and the scheduler, the rerun state machine's \<^verbatim>\<open>load_state_dict\<close>, and the
  setting of the random number generators' states. The others are the calls of
  \<open>save_checkpoint\<close>, in the order of their first use there; the functions that finalize
  a save are either called at once or added to the request of an asynchronous save.
\<close>

datatype finalize_fn =
    IterFinalize
  | LocalIterFinalize
  | OneLoggerFinalize
  | WandbFinalize

datatype event =
    PrintRank0 message
  | Print message
  | Barrier
  | LoadModeloptCheckpoint
  | LoadModel
  | LoadOptimizer
  | LoadRerunState
  | SetRngState
  | OnSaveCheckpointStart bool
  | FtOnCheckpointingStart
  | CleanupOldNonPersistentCheckpoint string bool
  | MaybeSaveDataloaderState
  | EnsureDirectoryExists string
  | SaveParameterState string
  | DistCheckpointingSave string bool bool
  | DcpSave string
  | LocalCheckpointManagerSave int bool
  | TorchSave string
  | CallFinalizeFn finalize_fn
  | AddFinalizeFn finalize_fn
  | ScheduleAsyncSave
  | FtOnCheckpointingEnd

type_synonym 'a io = "event list \<times> (exn + 'a)"

definition io_return :: "'a \<Rightarrow> 'a io" where
  "io_return x = ([], Inr x)"

definition io_raise :: "exn \<Rightarrow> 'a io" where
  "io_raise e = ([], Inl e)"

definition io_emit :: "event \<Rightarrow> unit io" where
  "io_emit ev = ([ev], Inr ())"

definition io_bind :: "'a io \<Rightarrow> ('a \<Rightarrow> 'b io) \<Rightarrow> 'b io" where
  "io_bind m f =
     (case m of
        (out, Inl e) \<Rightarrow> (out, Inl e)
      | (out, Inr x) \<Rightarrow> (case f x of (out', r) \<Rightarrow> (out @ out', r)))"

definition io_then :: "unit io \<Rightarrow> 'b io \<Rightarrow> 'b io" where
  "io_then m k = io_bind m (\<lambda>_. k)"

text \<open>
  \<^verbatim>\<open>torch.distributed\<close>, when it is initialized: the rank of this process, and what the
  other ranks contribute to the \<^verbatim>\<open>all_reduce\<close> of \<open>read_metadata\<close> on a tracker file
  (the iterations they read from the file of that name). A value \<open>None\<close> of type
  \<open>dist_state option\<close> is \<^verbatim>\<open>torch.distributed.is_initialized() == False\<close>.
\<close>

record dist_state =
  get_rank :: nat
  peer_iterations :: "string \<Rightarrow> int list"

text \<open>The files this process sees: a path is mapped to the content of the file there.\<close>

type_synonym file_system = "string \<Rightarrow> string option"

definition isfile :: "file_system \<Rightarrow> string \<Rightarrow> bool" where
  "isfile fs filename = (fs filename \<noteq> None)"

subsection \<open>The tracker file\<close>

definition read_metadata :: "dist_state option \<Rightarrow> file_system \<Rightarrow> string \<Rightarrow> (int \<times> bool) io" where
  "read_metadata dist fs tracker_filename =
     (case fs tracker_filename of
        None \<Rightarrow> io_raise FileNotFoundError
      | Some content \<Rightarrow>
          let metastring = strip content in
          io_bind
            (case py_int metastring of
               Some i \<Rightarrow> io_return (i, False)
             | None \<Rightarrow>
                 if metastring = ''release'' then io_return (0, True)
                 else io_then (io_emit (PrintRank0 (Err_invalid_metadata_file tracker_filename)))
                        (io_raise SystemExit))
            (\<lambda>(iteration, release).
               if \<not> (iteration > 0 \<or> release) then io_raise AssertionError
               else
                 (case dist of
                    Some d \<Rightarrow>
                      let max_iter = fold max (peer_iterations d tracker_filename) iteration in
                      io_then
                        (if iteration \<noteq> max_iter
                         then io_emit (Print (Warn_iteration_replaced_by_max (get_rank d)
                                               iteration max_iter))
                         else io_return ())
                        (io_return (max_iter, release))
                  | None \<Rightarrow> io_return (iteration, release))))"


subsection \<open>Arguments, checkpoints on disk and the collaborators of a load\<close>

text \<open>
  The fields of \<^verbatim>\<open>args\<close> (an \<^verbatim>\<open>argparse.Namespace\<close>) that the modelled functions read.
  An option type stands for a value that may be \<^verbatim>\<open>None\<close>, or for an attribute read with
  \<^verbatim>\<open>getattr(args, name, default)\<close> that may be absent. The \<^verbatim>\<open>args\<close> a checkpoint stores
  are of the same type; there \<open>no_save_rng\<close>, \<open>no_save_optim\<close> and
  \<open>ckpt_fully_parallel_save\<close> are read with the default \<^verbatim>\<open>False\<close>.
\<close>

record args =
  async_save :: bool
  use_dist_ckpt :: bool
  save :: string
  load :: "string option"
  non_persistent_ckpt_type :: "string option"
  non_persistent_global_ckpt_dir :: "string option"
  ckpt_format :: string
  ckpt_step :: "int option"
  exit_on_missing_checkpoint :: bool
  auto_detect_ckpt_format :: bool
  load_model_opt_format :: bool
  pretrained_checkpoint :: "string option"
  finetune :: bool
  no_load_rng :: bool
  no_load_optim :: bool
  no_save_rng :: bool
  no_save_optim :: bool
  use_distributed_optimizer :: bool
  ckpt_fully_parallel_save :: bool
  ckpt_assume_constant_structure :: bool
  tensor_model_parallel_size :: int
  pipeline_model_parallel_size :: int
  world_size :: "int option"
  data_parallel_size :: "int option"

text \<open>Python's truth value of a string that may be \<^verbatim>\<open>None\<close>.\<close>

definition truthy_str :: "string option \<Rightarrow> bool" where
  "truthy_str s = (case s of None \<Rightarrow> False | Some t \<Rightarrow> t \<noteq> [])"

datatype CheckpointType = LEGACY | LOCAL | GLOBAL | TORCH_DCP

text \<open>
  What \<open>load_checkpoint\<close> reads of a loaded state dict: the stored \<^verbatim>\<open>args\<close>, the
  iteration under the key \<^verbatim>\<open>iteration\<close> or \<^verbatim>\<open>total_iters\<close>, whether it has the key
  \<^verbatim>\<open>rerun_state_machine\<close>, the number of floating-point operations, and the answer of
  \<^verbatim>\<open>dist_checkpointing.load_content_metadata\<close>: \<open>None\<close> for no metadata, otherwise the
  entry \<^verbatim>\<open>distrib_optim_sharding_type\<close> of the metadata, if it has one.
\<close>

record state_dict =
  sd_args :: "args option"
  sd_iteration :: "int option"
  sd_total_iters :: "int option"
  sd_has_rerun_state_machine :: bool
  sd_num_floating_point_operations_so_far :: "int option"
  sd_content_metadata :: "string option option"

text \<open>The four values \<^verbatim>\<open>_load_base_checkpoint\<close> returns when it has read a checkpoint.\<close>

record loaded =
  ld_state_dict :: state_dict
  ld_checkpoint_name :: string
  ld_release :: bool
  ld_ckpt_type :: CheckpointType

text \<open>
  The checkpoint \<^verbatim>\<open>_load_base_checkpoint\<close> goes on to read once it has compared the
  iterations: the non-persistent one (the call of
  \<^verbatim>\<open>_load_non_persistent_base_checkpoint\<close> with the directory and the iteration), or the
  persistent one of the load directory (its base directory, iteration and release flag;
  lines 1013 to 1085 detect its format and read it).
\<close>

datatype base_checkpoint =
    NonPersistent "string option" int
  | Persistent string int bool

text \<open>
  The collaborators: \<^verbatim>\<open>torch.distributed\<close>, the file system, \<^verbatim>\<open>mpu\<close>, the answer of
  \<^verbatim>\<open>checkpointing_context['local_checkpoint_manager'].find_latest()\<close> (\<open>None\<close> without a
  checkpointing context), the reading of a chosen checkpoint by the storage libraries (with
  the flag \<^verbatim>\<open>rank0\<close>), the answer of the rerun state machine's
  \<^verbatim>\<open>validate_state_dict\<close>, \<^verbatim>\<open>is_empty_async_queue()\<close>, \<^verbatim>\<open>is_last_rank()\<close> and
  \<^verbatim>\<open>mpu.get_expert_data_parallel_rank()\<close>.
\<close>

record world =
  w_dist :: "dist_state option"
  w_fs :: file_system
  w_mpu :: mpu_state
  w_find_latest :: "int option"
  w_read :: "base_checkpoint \<Rightarrow> bool \<Rightarrow> exn + loaded"
  w_validate_rerun_state :: bool
  w_is_empty_async_queue :: bool
  w_is_last_rank :: bool
  w_expert_data_parallel_rank :: int

subsection \<open>Choosing the checkpoint to load\<close>

definition checkpoint_exists :: "file_system \<Rightarrow> string option \<Rightarrow> bool" where
  "checkpoint_exists fs checkpoints_path =
     (case checkpoints_path of
        None \<Rightarrow> False
      | Some path \<Rightarrow> isfile fs (get_checkpoint_tracker_filename path))"

definition get_non_persistent_iteration :: "world \<Rightarrow> string option \<Rightarrow> args \<Rightarrow> int io" where
  "get_non_persistent_iteration w non_persistent_global_dir a =
     (case non_persistent_ckpt_type a of
        None \<Rightarrow> io_return (- 1)
      | Some ty \<Rightarrow>
          if ty = ''global'' then
            (case non_persistent_global_dir of
               None \<Rightarrow> io_raise TypeError
             | Some dir \<Rightarrow>
                 let tracker_filename = get_checkpoint_tracker_filename dir in
                 if isfile (w_fs w) tracker_filename then
                   io_bind (read_metadata (w_dist w) (w_fs w) tracker_filename)
                     (\<lambda>(iteration, release).
                        if release then io_raise RuntimeError else io_return iteration)
                 else
                   io_then (io_emit (PrintRank0 (Warn_no_metadata_file tracker_filename)))
                     (io_then (io_emit (PrintRank0 Info_no_non_persistent_load))
                        (io_return (- 1))))
          else if ty = ''local'' then
            (case w_find_latest w of
               None \<Rightarrow> io_raise TypeError
             | Some latest \<Rightarrow> io_return latest)
          else io_raise AssertionError)"

text \<open>
  The parts of \<^verbatim>\<open>_load_base_checkpoint\<close>, in the order of the source: the directory of
  the non-persistent checkpoints (lines 966 to 970), the reading of the persistent tracker
  file (lines 974 to 979), the iteration the user may put in its place (lines 982 and 983, where a
  \<^verbatim>\<open>ckpt_step\<close> that is absent, \<^verbatim>\<open>None\<close> or zero changes nothing),
  and the name the source prints for the tracker file.
\<close>

definition non_persistent_global_dir_of :: "string option \<Rightarrow> args \<Rightarrow> string option" where
  "non_persistent_global_dir_of load_dir a =
     (case load_dir of
        None \<Rightarrow> non_persistent_global_ckpt_dir a
      | Some dir \<Rightarrow>
          if truthy_str (non_persistent_global_ckpt_dir a) then non_persistent_global_ckpt_dir a
          else Some (os_path_join dir [''non_persistent'']))"

definition read_tracker :: "world \<Rightarrow> string option \<Rightarrow> (int \<times> bool) io" where
  "read_tracker w load_dir =
     (case load_dir of
        None \<Rightarrow> io_return (- 1, False)
      | Some dir \<Rightarrow>
          if isfile (w_fs w) (get_checkpoint_tracker_filename dir)
          then read_metadata (w_dist w) (w_fs w) (get_checkpoint_tracker_filename dir)
          else io_return (- 1, False))"

definition resolve_iteration :: "args \<Rightarrow> int \<Rightarrow> int" where
  "resolve_iteration a tracker_iteration =
     (case ckpt_step a of
        None \<Rightarrow> tracker_iteration
      | Some st \<Rightarrow> if st \<noteq> 0 then st else tracker_iteration)"

definition tracker_filename_of :: "string option \<Rightarrow> string" where
  "tracker_filename_of load_dir =
     (case load_dir of
        None \<Rightarrow> ''because load directory is not defined''
      | Some dir \<Rightarrow> get_checkpoint_tracker_filename dir)"

text \<open>
  Lines 965 to 1014 of \<^verbatim>\<open>_load_base_checkpoint\<close>: the result is \<open>None\<close> where the source
  returns \<^verbatim>\<open>None, "", False, None\<close>, and otherwise the checkpoint that is read next.
\<close>

definition choose_base_checkpoint ::
  "world \<Rightarrow> string option \<Rightarrow> args \<Rightarrow> bool \<Rightarrow> base_checkpoint option io" where
  "choose_base_checkpoint w load_dir a rank0 =
     (let non_persistent_global_dir = non_persistent_global_dir_of load_dir a in
      io_bind (get_non_persistent_iteration w non_persistent_global_dir a)
        (\<lambda>non_persistent_iteration.
      io_bind (read_tracker w load_dir)
        (\<lambda>(tracker_iteration, release).
      let iteration = resolve_iteration a tracker_iteration in
      if non_persistent_iteration \<noteq> - 1 \<and> non_persistent_iteration \<ge> iteration
      then io_return (Some (NonPersistent non_persistent_global_dir non_persistent_iteration))
      else
        io_then
          (if non_persistent_iteration \<noteq> - 1
           then io_emit (PrintRank0 Warn_non_persistent_older) else io_return ())
          (if iteration = - 1 then
             io_then
               (if \<not> rank0 then
                  io_then (io_emit (PrintRank0 (Warn_no_metadata_file (tracker_filename_of load_dir))))
                    (io_emit (PrintRank0 Info_start_from_random))
                else io_return ())
               (if exit_on_missing_checkpoint a then
                  io_then (io_emit (PrintRank0 Info_exit_on_missing_checkpoint))
                    (io_then (if w_dist w \<noteq> None then io_emit Barrier else io_return ())
                       (io_raise SystemExit))
                else io_return None)
           else
             (case load_dir of
                None \<Rightarrow> io_raise TypeError
              | Some dir \<Rightarrow>
                  io_return (Some (Persistent
                    (get_checkpoint_name (w_mpu w) dir iteration
                       (default_name_args \<lparr> release := release, return_base_dir := True \<rparr>))
                    iteration release)))))))"

text \<open>
  \<^verbatim>\<open>_load_base_checkpoint\<close>: the choice, then the reading of the chosen checkpoint.
\<close>

definition load_base_checkpoint ::
  "world \<Rightarrow> string option \<Rightarrow> args \<Rightarrow> bool \<Rightarrow> loaded option io" where
  "load_base_checkpoint w load_dir a rank0 =
     io_bind (choose_base_checkpoint w load_dir a rank0)
       (\<lambda>choice.
          case choice of
            None \<Rightarrow> io_return None
          | Some c \<Rightarrow>
              (case w_read w c rank0 of
                 Inl e \<Rightarrow> io_raise e
               | Inr l \<Rightarrow> io_return (Some l)))"

subsection \<open>Loading a checkpoint\<close>

text \<open>
  What lines 1306 to 1410 of \<open>load_checkpoint\<close> decide: the two flags
  \<^verbatim>\<open>ignore_rng_state\<close> and \<^verbatim>\<open>ignore_rerun_state\<close>, and which of the RNG state, the
  optimizer (with its scheduler) and the rerun state are passed to
  \<^verbatim>\<open>generate_state_dict\<close>, that is, are requested from the checkpoint.
\<close>

record load_request =
  ignore_rng_state :: bool
  ignore_rerun_state :: bool
  gen_sd_rng_state :: bool
  gen_sd_optim :: bool
  gen_sd_rerun_state :: bool

text \<open>The values of lines 1307 and 1308, which stand when the format is not \<^verbatim>\<open>torch_dist\<close>.\<close>

definition default_request :: load_request where
  "default_request =
     \<lparr> ignore_rng_state = False, ignore_rerun_state = True, gen_sd_rng_state = False,
       gen_sd_optim = False, gen_sd_rerun_state = False \<rparr>"

definition getattr_0 :: "int option \<Rightarrow> int" where
  "getattr_0 x = (case x of None \<Rightarrow> 0 | Some n \<Rightarrow> n)"

text \<open>
  Lines 1309 to 1387, the branch \<^verbatim>\<open>ckpt_format == "torch_dist"\<close>, for the state dict and
  the release flag of the first call of \<^verbatim>\<open>_load_base_checkpoint\<close>. The optimizer's
  sharding type is looked up only after a mismatch of the tensor and pipeline parallel
  sizes (the right operand of the \<^verbatim>\<open>and\<close> of line 1355).
\<close>

definition torch_dist_request :: "world \<Rightarrow> args \<Rightarrow> state_dict \<Rightarrow> bool \<Rightarrow> load_request io" where
  "torch_dist_request w a sd rel =
     (case sd_args sd of
        None \<Rightarrow> io_raise KeyError
      | Some ca \<Rightarrow>
          let ckpt_tp_pp = (tensor_model_parallel_size ca, pipeline_model_parallel_size ca);
              run_tp_pp = (tensor_model_parallel_size a, pipeline_model_parallel_size a);
              ckpt_world_size = getattr_0 (world_size ca);
              run_world_size = getattr_0 (world_size a);
              ckpt_dp = getattr_0 (data_parallel_size ca);
              run_dp = getattr_0 (data_parallel_size a);
              load_rng = (ckpt_tp_pp = run_tp_pp \<and> \<not> rel \<and> \<not> finetune a \<and> \<not> no_load_rng a
                          \<and> \<not> no_save_rng ca);
              load_optim = (\<not> rel \<and> \<not> finetune a \<and> \<not> no_load_optim a \<and> \<not> no_save_optim ca);
              load_rerun = (ckpt_world_size = run_world_size \<and> ckpt_tp_pp = run_tp_pp
                            \<and> ckpt_dp = run_dp \<and> \<not> rel \<and> \<not> finetune a
                            \<and> sd_has_rerun_state_machine sd \<and> w_validate_rerun_state w)
          in
          io_then
            (if \<not> load_rng \<and> ckpt_tp_pp \<noteq> run_tp_pp
             then io_emit (PrintRank0 (Warn_tp_pp_mismatch_rng run_tp_pp ckpt_tp_pp))
             else io_return ())
         (io_then (io_emit (PrintRank0 (Info_sharded_sd_metadata (sd_content_metadata sd))))
         (io_then
            (if load_optim \<and> use_distributed_optimizer a \<and> ckpt_tp_pp \<noteq> run_tp_pp then
               (case (case sd_content_metadata sd of
                        None \<Rightarrow> Some (if ckpt_fully_parallel_save ca
                                       then ''fully_sharded_model_space''
                                       else ''dp_zero_gather_scatter'')
                      | Some m \<Rightarrow> m) of
                  None \<Rightarrow> io_raise KeyError
                | Some sharding_type \<Rightarrow>
                    if sharding_type \<noteq> ''fully_sharded_model_space''
                    then io_raise RuntimeError else io_return ())
             else io_return ())
         (io_then
            (if ckpt_world_size \<noteq> run_world_size \<or> ckpt_tp_pp \<noteq> run_tp_pp \<or> ckpt_dp \<noteq> run_dp
             then io_emit (PrintRank0 Warn_job_sharding_changed)
             else io_return ())
            (io_return
               \<lparr> ignore_rng_state = \<not> load_rng, ignore_rerun_state = \<not> load_rerun,
                 gen_sd_rng_state = load_rng, gen_sd_optim = load_optim,
                 gen_sd_rerun_state = load_rerun \<rparr>)))))"

text \<open>
  Lines 1436 to 1609, once a state dict is there: the iteration and the number of
  floating-point operations that are returned, and which parts of the state are handed
  on. The checks of the stored arguments and what the collaborators do with the state
  are not modelled; an exception from there is outside this model.
\<close>

definition finish_load :: "world \<Rightarrow> args \<Rightarrow> string option \<Rightarrow> load_request \<Rightarrow> loaded \<Rightarrow> (int \<times> int) io" where
  "finish_load w a load_dir req l =
     (let sd = ld_state_dict l; rel = ld_release l in
      io_bind
        (if finetune a \<or> rel then io_return 0
         else
           (case sd_iteration sd of
              Some i \<Rightarrow> io_return i
            | None \<Rightarrow>
                (case sd_total_iters sd of
                   Some i \<Rightarrow> io_return i
                 | None \<Rightarrow>
                     io_then
                       (io_emit (PrintRank0 (Err_no_iteration_in_checkpoint (ld_checkpoint_name l))))
                       (io_raise SystemExit))))
        (\<lambda>iteration.
           io_then (io_emit LoadModel)
          (io_then
             (if \<not> rel \<and> \<not> finetune a \<and> \<not> no_load_optim a
              then io_emit LoadOptimizer else io_return ())
          (io_then
             (if \<not> ignore_rerun_state req \<and> sd_has_rerun_state_machine sd
              then io_emit LoadRerunState else io_return ())
          (io_then
             (if \<not> rel \<and> \<not> finetune a \<and> \<not> no_load_rng a \<and> \<not> ignore_rng_state req
              then io_emit SetRngState else io_return ())
          (io_then (if w_dist w \<noteq> None then io_emit Barrier else io_return ())
          (io_then (io_emit (PrintRank0 (Info_loaded_checkpoint load_dir iteration)))
             (io_return
               (iteration,
                case sd_num_floating_point_operations_so_far sd of
                  None \<Rightarrow> 0 | Some n \<Rightarrow> n)))))))))"

text \<open>
  Lines 1273 to 1281: the directory that is loaded from and the arguments after the
  fallback to the pretrained checkpoint.
\<close>

definition pretrained_fallback :: "world \<Rightarrow> args \<Rightarrow> (string option \<times> args) io" where
  "pretrained_fallback w a =
     (case pretrained_checkpoint a of
        None \<Rightarrow> io_return (load a, a)
      | Some pretrained_dir \<Rightarrow>
          if \<not> checkpoint_exists (w_fs w) (load a) then
            io_then (io_emit (PrintRank0 (Info_finetune_from_pretrained (load a) pretrained_dir)))
              (if \<not> checkpoint_exists (w_fs w) (Some pretrained_dir)
               then io_raise FileNotFoundError
               else io_return (Some pretrained_dir, a \<lparr> finetune := True \<rparr>))
          else io_return (load a, a))"

text \<open>
  \<open>load_checkpoint\<close> with \<^verbatim>\<open>load_arg='load'\<close>. After the ModelOpt branch and the
  fallback, \<^verbatim>\<open>_load_base_checkpoint\<close> is called with \<^verbatim>\<open>rank0=True\<close> when the format is
  to be detected or is \<^verbatim>\<open>torch_dist\<close>; the request is built from what that call returns
  when it returns a \<^verbatim>\<open>LOCAL\<close> or \<^verbatim>\<open>GLOBAL\<close> checkpoint, which is when the source sets
  \<^verbatim>\<open>ckpt_format\<close> to \<^verbatim>\<open>torch_dist\<close>; then \<^verbatim>\<open>_load_base_checkpoint\<close> is called with
  \<^verbatim>\<open>rank0=False\<close>.
\<close>

definition load_checkpoint :: "world \<Rightarrow> args \<Rightarrow> (int \<times> int) io" where
  "load_checkpoint w a0 =
     (if load_model_opt_format a0 then
        io_then (io_emit (PrintRank0 (Info_loading_modelopt (load a0))))
       (io_then (io_emit LoadModeloptCheckpoint)
       (io_bind
          (if w_dist w \<noteq> None then
             (case load a0 of
                None \<Rightarrow> io_raise TypeError
              | Some dir \<Rightarrow>
                  if isfile (w_fs w) (get_checkpoint_tracker_filename dir) then
                    io_bind (read_metadata (w_dist w) (w_fs w) (get_checkpoint_tracker_filename dir))
                      (\<lambda>(iteration, release). io_return (if release then 0 else iteration))
                  else io_return 0)
           else io_return 0)
          (\<lambda>iteration. io_return (iteration, 0))))
      else
        io_bind (pretrained_fallback w a0)
          (\<lambda>(load_dir, a).
        io_bind
          (if auto_detect_ckpt_format a \<or> ckpt_format a = ''torch_dist''
           then io_bind (load_base_checkpoint w load_dir a True) (\<lambda>r. io_return (Some r))
           else io_return None)
          (\<lambda>first.
        io_bind
          (case first of
             Some (Some l) \<Rightarrow>
               if ld_ckpt_type l = LOCAL \<or> ld_ckpt_type l = GLOBAL
               then torch_dist_request w a (ld_state_dict l) (ld_release l)
               else io_return default_request
           | _ \<Rightarrow> io_return default_request)
          (\<lambda>req.
        io_bind (load_base_checkpoint w load_dir a False)
          (\<lambda>second.
             case second of
               None \<Rightarrow> io_return (0, 0)
             | Some l \<Rightarrow> finish_load w a load_dir req l)))))"

subsection \<open>Example arguments and collaborators\<close>

text \<open>
  A run that sets no option of checkpointing, and a single process without
  \<^verbatim>\<open>torch.distributed\<close>, without files and without a checkpointing context, where the
  checkpoint of every iteration can be read as a \<^verbatim>\<open>GLOBAL\<close> one that holds that
  iteration; the examples below change them field by field.
\<close>

definition plain_args :: args where
  "plain_args =
     \<lparr> async_save = False, use_dist_ckpt = False, save = ''/ckpt'', load = Some ''/ckpt'',
       non_persistent_ckpt_type = None, non_persistent_global_ckpt_dir = None,
       ckpt_format = ''torch_dist'', ckpt_step = None, exit_on_missing_checkpoint = False,
       auto_detect_ckpt_format = False, load_model_opt_format = False,
       pretrained_checkpoint = None, finetune = False, no_load_rng = False,
       no_load_optim = False, no_save_rng = False, no_save_optim = False,
       use_distributed_optimizer = False, ckpt_fully_parallel_save = False,
       ckpt_assume_constant_structure = False, tensor_model_parallel_size = 1,
       pipeline_model_parallel_size = 1, world_size = Some 8, data_parallel_size = Some 8 \<rparr>"

definition plain_state_dict :: state_dict where
  "plain_state_dict =
     \<lparr> sd_args = Some plain_args, sd_iteration = Some 100, sd_total_iters = None,
       sd_has_rerun_state_machine = True,
       sd_num_floating_point_operations_so_far = Some 4000,
       sd_content_metadata = Some (Some ''dp_zero_gather_scatter'') \<rparr>"

definition plain_world :: world where
  "plain_world =
     \<lparr> w_dist = None, w_fs = Map.empty,
       w_mpu = \<lparr> pipeline_model_parallel_world_size = 1, tensor_model_parallel_rank = 0,
                 pipeline_model_parallel_rank = 0, expert_model_parallel_world_size = 1,
                 expert_model_parallel_rank = 0 \<rparr>,
       w_find_latest = None,
       w_read = (\<lambda>c rank0.
          Inr \<lparr> ld_state_dict =
                  plain_state_dict \<lparr> sd_iteration :=
                    Some (case c of NonPersistent d i \<Rightarrow> i | Persistent n i r \<Rightarrow> i) \<rparr>,
                ld_checkpoint_name = (case c of NonPersistent d i \<Rightarrow> ''non_persistent''
                                      | Persistent n i r \<Rightarrow> n),
                ld_release = (case c of NonPersistent d i \<Rightarrow> False | Persistent n i r \<Rightarrow> r),
                ld_ckpt_type = GLOBAL \<rparr>),
       w_validate_rerun_state = True, w_is_empty_async_queue = True,
       w_is_last_rank = True, w_expert_data_parallel_rank = 0 \<rparr>"

subsection \<open>Saving a checkpoint\<close>

text \<open>
  \<^verbatim>\<open>os.path.dirname\<close> of \<^verbatim>\<open>posixpath\<close>: the path up to its last slash, without the slashes
  at the end unless nothing else is left.
\<close>

definition dirname :: "string \<Rightarrow> string" where
  "dirname path =
     (let hd_part = rev (dropWhile (\<lambda>c. c \<noteq> CHR ''/'') (rev path)) in
      if hd_part \<noteq> [] \<and> (\<exists>c \<in> set hd_part. c \<noteq> CHR ''/'')
      then rev (dropWhile (\<lambda>c. c = CHR ''/'') (rev hd_part))
      else hd_part)"

definition get_distributed_optimizer_checkpoint_name :: "string \<Rightarrow> string" where
  "get_distributed_optimizer_checkpoint_name model_checkpoint_name =
     os_path_join (dirname model_checkpoint_name) [''distrib_optim.pt'']"

text \<open>
  What \<open>save_checkpoint\<close> is called with, besides \<^verbatim>\<open>args\<close>: the iteration; the optimizer
  (\<open>None\<close> for \<^verbatim>\<open>None\<close>, otherwise its \<^verbatim>\<open>is_stub_optimizer\<close>); the checkpointing context
  (\<open>None\<close> for \<^verbatim>\<open>None\<close>, otherwise whether it holds a \<^verbatim>\<open>save_strategy\<close>) and the directory
  of its local checkpoint manager, if it has one; the flag \<^verbatim>\<open>non_persistent_ckpt\<close>; and the
  ranks and flags that are passed on to \<open>get_checkpoint_name\<close>.
\<close>

record save_params =
  sp_iteration :: int
  sp_optimizer :: "bool option"
  sp_context_has_save_strategy :: "bool option"
  sp_local_ckpt_dir :: "string option"
  sp_non_persistent_ckpt :: bool
  sp_name_args :: name_args

text \<open>Lines 376 to 394: the type of the checkpoint and the directory it is saved to.\<close>

definition save_target :: "args \<Rightarrow> save_params \<Rightarrow> (CheckpointType \<times> string) io" where
  "save_target a p =
     (if sp_non_persistent_ckpt p then
        (if non_persistent_ckpt_type a = Some ''global'' then
           let save_dir = (case non_persistent_global_ckpt_dir a of
                             None \<Rightarrow> os_path_join (save a) [''non_persistent'']
                           | Some d \<Rightarrow> if d \<noteq> [] then d
                                       else os_path_join (save a) [''non_persistent''])
           in io_then (io_emit (CleanupOldNonPersistentCheckpoint save_dir (async_save a)))
                (io_return (GLOBAL, save_dir))
         else if non_persistent_ckpt_type a = Some ''local'' then
           (case sp_local_ckpt_dir p of
              None \<Rightarrow> io_raise TypeError
            | Some d \<Rightarrow> io_return (LOCAL, d))
         else io_raise NotImplementedError)
      else io_return (if use_dist_ckpt a then GLOBAL else LEGACY, save a))"

text \<open>
  Lines 443 to 543: the state dict is handed to the storage that fits the type and the
  format of the checkpoint. The process of rank 0 creates the directory of a distributed
  checkpoint. The integrity of the sharding is validated unless a save strategy of an
  earlier save is reused and the structure is assumed constant.
\<close>

definition save_state_dict ::
  "world \<Rightarrow> args \<Rightarrow> save_params \<Rightarrow> CheckpointType \<Rightarrow> string \<Rightarrow> string \<Rightarrow> unit io" where
  "save_state_dict w a p ckpt_type ckpt_fmt checkpoint_name =
     io_then
       (if ckpt_type \<noteq> LEGACY \<and> use_distributed_optimizer a
        then io_emit (PrintRank0 Info_storing_distributed_optimizer_state) else io_return ())
       (if ckpt_type = GLOBAL \<and> ckpt_fmt = ''torch_dist'' then
          io_then
            (if (case w_dist w of None \<Rightarrow> True | Some d \<Rightarrow> get_rank d = 0)
             then io_emit (EnsureDirectoryExists checkpoint_name) else io_return ())
            (io_emit (DistCheckpointingSave checkpoint_name (async_save a)
               (if sp_context_has_save_strategy p = Some True
                then \<not> ckpt_assume_constant_structure a else True)))
        else if ckpt_type = GLOBAL \<and> ckpt_fmt = ''torch_dcp'' then
          io_then
            (if (case w_dist w of None \<Rightarrow> True | Some d \<Rightarrow> get_rank d = 0)
             then io_emit (EnsureDirectoryExists checkpoint_name) else io_return ())
            (io_emit (DcpSave checkpoint_name))
        else if ckpt_type = LOCAL then
          (case sp_context_has_save_strategy p of
             None \<Rightarrow> io_raise TypeError
           | Some _ \<Rightarrow> io_emit (LocalCheckpointManagerSave (sp_iteration p) (async_save a)))
        else if ckpt_type \<noteq> LEGACY then io_raise AssertionError
        else
          io_then (io_emit (EnsureDirectoryExists (dirname checkpoint_name)))
            (io_emit (TorchSave checkpoint_name)))"

text \<open>
  Lines 365 to 650, everything \<open>save_checkpoint\<close> does after its first statement. The
  collection of the state (the RNG state, the rerun state, \<^verbatim>\<open>generate_state_dict\<close>) and the
  ModelOpt calls leave no event. A finalize function is added to the request of an
  asynchronous save, which the storage has returned, and is called at once otherwise.
\<close>

definition finalize :: "args \<Rightarrow> finalize_fn \<Rightarrow> unit io" where
  "finalize a fn = (if async_save a then io_emit (AddFinalizeFn fn) else io_emit (CallFinalizeFn fn))"

definition save_checkpoint_body :: "world \<Rightarrow> args \<Rightarrow> save_params \<Rightarrow> unit io" where
  "save_checkpoint_body w a p =
     io_then (io_emit (OnSaveCheckpointStart (async_save a)))
    (io_then (io_emit FtOnCheckpointingStart)
    (io_bind (save_target a p)
       (\<lambda>(ckpt_type, save_dir).
          let ckpt_fmt = (if ckpt_type = GLOBAL then ckpt_format a else ''torch'');
              checkpoint_name =
                get_checkpoint_name (w_mpu w) save_dir (sp_iteration p)
                  ((sp_name_args p) \<lparr> release := False, return_base_dir := (ckpt_type \<noteq> LEGACY),
                                      basename := ''model_optim_rng.pt'' \<rparr>)
          in
          io_then (io_emit (PrintRank0 (Info_saving_checkpoint (sp_iteration p) save_dir ckpt_fmt)))
         (io_then (io_emit MaybeSaveDataloaderState)
         (io_then
            (if use_distributed_optimizer a \<and> \<not> no_save_optim a \<and> sp_optimizer p \<noteq> None
                \<and> ckpt_type = LEGACY
             then
               io_then
                 (io_emit (EnsureDirectoryExists
                    (dirname (get_distributed_optimizer_checkpoint_name checkpoint_name))))
                 (if sp_optimizer p = Some False
                  then io_emit (SaveParameterState
                         (get_distributed_optimizer_checkpoint_name checkpoint_name))
                  else io_return ())
             else io_return ())
         (io_then
            (if async_save a \<and> ckpt_type = LEGACY then io_raise NotImplementedError
             else if async_save a \<and> ckpt_type = GLOBAL \<and> ckpt_format a \<noteq> ''torch_dist''
             then io_raise NotImplementedError
             else io_return ())
         (io_then
            (if w_dist w = None \<or> w_expert_data_parallel_rank w = 0 \<or> ckpt_type \<noteq> LEGACY
             then save_state_dict w a p ckpt_type ckpt_fmt checkpoint_name
             else io_return ())
         (io_then
            (if ckpt_type \<noteq> LOCAL \<and> \<not> async_save a \<and> w_dist w \<noteq> None
             then io_emit Barrier else io_return ())
         (io_then
            (if (case w_dist w of None \<Rightarrow> True | Some d \<Rightarrow> get_rank d = 0)
             then finalize a (if ckpt_type = LOCAL then LocalIterFinalize else IterFinalize)
             else io_return ())
         (io_then
            (if w_dist w = None \<or> w_is_last_rank w
             then io_then (finalize a OneLoggerFinalize) (finalize a WandbFinalize)
             else io_return ())
         (io_then
            (if async_save a
             then io_then (io_emit ScheduleAsyncSave)
                    (io_emit (PrintRank0 (Info_scheduled_async_save (sp_iteration p) save_dir)))
             else io_return ())
         (io_then (if w_dist w \<noteq> None then io_emit Barrier else io_return ())
            (io_emit FtOnCheckpointingEnd)))))))))))))"

text \<open>
  \<open>save_checkpoint\<close>: lines 362 and 363, where the queue of asynchronous saves is looked
  at, and then the rest. Nothing else of the function looks at the queue.
\<close>

definition save_checkpoint :: "world \<Rightarrow> args \<Rightarrow> save_params \<Rightarrow> unit io" where
  "save_checkpoint w a p =
     io_then
       (if async_save a \<and> \<not> w_is_empty_async_queue w
        then io_emit (PrintRank0 Warn_save_before_previous_finished) else io_return ())
       (save_checkpoint_body w a p)"

definition plain_save_params :: save_params where
  "plain_save_params =
     \<lparr> sp_iteration = 100, sp_optimizer = Some False, sp_context_has_save_strategy = None,
       sp_local_ckpt_dir = None, sp_non_persistent_ckpt = False,
       sp_name_args = default_name_args \<rparr>"

section \<open>The sharded state dict of \<^verbatim>\<open>dist_checkpointing\<close>\<close>

text \<open>
  The package \<^verbatim>\<open>megatron.core.dist_checkpointing\<close> is not among the sources; its tests
  in \<^verbatim>\<open>tests/unit_tests/dist_checkpointing/test_serialization.py\<close> are. The definitions
  of this section follow the specification, for tensors of one axis.
\<close>

subsection \<open>Sharded tensors, saved and loaded\<close>

text \<open>
  Modelled from the spec: the class \<^verbatim>\<open>ShardedTensor\<close> of
  \<^verbatim>\<open>dist_checkpointing/mapping.py\<close>, which is missing. A shard has its key, its payload,
  the extent of the global array, its own origin in the global array, the replica id and
  the flag \<^verbatim>\<open>allow_shape_mismatch\<close>. \<open>from_rank_offsets\<close> makes the shard of the rank
  \<open>rank\<close> when \<open>fragments\<close> shards of the size of the payload partition the axis.
\<close>

record ShardedTensor =
  key :: string
  data :: "int list"
  global_shape :: nat
  global_offset :: nat
  replica_id :: nat
  allow_shape_mismatch :: bool

definition from_rank_offsets ::
  "string \<Rightarrow> int list \<Rightarrow> nat \<Rightarrow> nat \<Rightarrow> nat \<Rightarrow> bool \<Rightarrow> ShardedTensor" where
  "from_rank_offsets k t rank fragments replica flag =
     \<lparr> key = k, data = t, global_shape = fragments * length t, global_offset = rank * length t,
       replica_id = replica, allow_shape_mismatch = flag \<rparr>"

text \<open>
  Modelled from the spec: what the storage strategy, which is missing, keeps on disk for a
  key: the extent of the global array and the shards that were written, each with its
  origin.
\<close>

record disk_tensor =
  disk_global_shape :: nat
  disk_shards :: "(nat \<times> int list) list"

type_synonym checkpoint = "string \<Rightarrow> disk_tensor option"

text \<open>
  Modelled from the spec: \<^verbatim>\<open>dist_checkpointing.save\<close> for sharded tensors, which is
  missing. Of the shards of all ranks, the copy with the lowest replica id among those of
  the same key and origin is the one that is written.
\<close>

definition is_main_replica :: "ShardedTensor list \<Rightarrow> ShardedTensor \<Rightarrow> bool" where
  "is_main_replica ts t =
     (\<forall>u \<in> set ts. key u = key t \<and> global_offset u = global_offset t
        \<longrightarrow> replica_id t \<le> replica_id u)"

definition save_tensor :: "ShardedTensor \<Rightarrow> checkpoint \<Rightarrow> checkpoint" where
  "save_tensor t ck =
     ck (key t \<mapsto>
       (case ck (key t) of
          None \<Rightarrow> \<lparr> disk_global_shape = global_shape t,
                    disk_shards = [(global_offset t, data t)] \<rparr>
        | Some d \<Rightarrow> d \<lparr> disk_shards := disk_shards d @ [(global_offset t, data t)] \<rparr>))"

definition save_tensors :: "ShardedTensor list \<Rightarrow> checkpoint" where
  "save_tensors ts = foldl (\<lambda>ck t. save_tensor t ck) Map.empty (filter (is_main_replica ts) ts)"

text \<open>
  Modelled from the spec: the resharding of section 4.3, whose code is missing. The
  requested shard starts as zeros; from every shard on disk the part that lies in the
  requested region is copied to its place. A global extent on disk other than the
  requested one is an error unless the requested shard allows a shape mismatch, and so is
  a key that is not on disk.
\<close>

definition copy_shard :: "nat \<Rightarrow> nat \<times> int list \<Rightarrow> int list \<Rightarrow> int list" where
  "copy_shard req_offset shard buffer =
     map (\<lambda>i. let g = req_offset + i in
               if fst shard \<le> g \<and> g < fst shard + length (snd shard)
               then snd shard ! (g - fst shard) else buffer ! i)
       [0..<length buffer]"

definition load_tensor :: "ShardedTensor \<Rightarrow> checkpoint \<Rightarrow> exn + int list" where
  "load_tensor t ck =
     (case ck (key t) of
        None \<Rightarrow> Inl (CheckpointingException (key t))
      | Some d \<Rightarrow>
          if disk_global_shape d \<noteq> global_shape t \<and> \<not> allow_shape_mismatch t
          then Inl (CheckpointingException (key t))
          else Inr (foldl (\<lambda>buffer shard. copy_shard (global_offset t) shard buffer)
                      (replicate (length (data t)) 0) (disk_shards d)))"

text \<open>
  The shards of a global array \<open>g\<close> that \<open>k\<close> ranks hold, \<open>c\<close> elements each, as the
  tests build them with \<^verbatim>\<open>ShardedTensor.from_rank_offsets\<close>.
\<close>

definition shards_of :: "string \<Rightarrow> int list \<Rightarrow> nat \<Rightarrow> nat \<Rightarrow> bool \<Rightarrow> ShardedTensor list" where
  "shards_of ky g c k flag =
     map (\<lambda>r. from_rank_offsets ky (take c (drop (r * c) g)) r k 0 flag) [0..<k]"

subsection \<open>Factories\<close>

text \<open>
  Modelled from the spec: the class \<^verbatim>\<open>ShardedTensorFactory\<close> and its use by
  \<^verbatim>\<open>dist_checkpointing.save\<close> and \<^verbatim>\<open>load\<close>, which are missing. A factory has a key, a
  tensor, a build function that makes the sharded tensors to store from the key, the
  tensor and the replica id, and a merge function that makes one value of the tensors
  loaded for them. A value is a tensor or a number, as Python's \<^verbatim>\<open>sum\<close>, the merge function
  of the test, starts from the number 0.
\<close>

datatype py_value = Scalar int | Tensor "int list"

fun py_add :: "py_value \<Rightarrow> py_value \<Rightarrow> py_value" where
  "py_add (Scalar x) (Scalar y) = Scalar (x + y)"
| "py_add (Scalar x) (Tensor t) = Tensor (map (\<lambda>y. x + y) t)"
| "py_add (Tensor t) (Scalar y) = Tensor (map (\<lambda>x. x + y) t)"
| "py_add (Tensor t) (Tensor u) = Tensor (map2 (+) t u)"

definition py_sum :: "int list list \<Rightarrow> py_value" where
  "py_sum ts = foldl py_add (Scalar 0) (map Tensor ts)"

record ShardedTensorFactory =
  factory_key :: string
  factory_data :: "int list"
  build_fn :: "string \<Rightarrow> int list \<Rightarrow> nat \<Rightarrow> ShardedTensor list"
  merge_fn :: "int list list \<Rightarrow> py_value"
  factory_replica_id :: nat

datatype entry = Ten ShardedTensor | Fac ShardedTensorFactory

definition build :: "ShardedTensorFactory \<Rightarrow> ShardedTensor list" where
  "build f = build_fn f (factory_key f) (factory_data f) (factory_replica_id f)"

definition apply_factories :: "entry list \<Rightarrow> ShardedTensor list" where
  "apply_factories es = concat (map (\<lambda>e. case e of Ten t \<Rightarrow> [t] | Fac f \<Rightarrow> build f) es)"

definition save_state :: "entry list \<Rightarrow> checkpoint" where
  "save_state es = save_tensors (apply_factories es)"

fun load_tensors :: "ShardedTensor list \<Rightarrow> checkpoint \<Rightarrow> exn + int list list" where
  "load_tensors [] ck = Inr []"
| "load_tensors (t # ts) ck =
     (case load_tensor t ck of
        Inl e \<Rightarrow> Inl e
      | Inr x \<Rightarrow> (case load_tensors ts ck of Inl e \<Rightarrow> Inl e | Inr xs \<Rightarrow> Inr (x # xs)))"

definition load_entry :: "entry \<Rightarrow> checkpoint \<Rightarrow> exn + py_value" where
  "load_entry e ck =
     (case e of
        Ten t \<Rightarrow> (case load_tensor t ck of Inl ex \<Rightarrow> Inl ex | Inr x \<Rightarrow> Inr (Tensor x))
      | Fac f \<Rightarrow> (case load_tensors (build f) ck of
                    Inl ex \<Rightarrow> Inl ex
                  | Inr xs \<Rightarrow> Inr (merge_fn f xs)))"

text \<open>
  The build function of the test \<^verbatim>\<open>test_can_mix_sharded_tensors_and_factories\<close>: three
  sharded tensors with keys of their own, each holding the whole tensor.
\<close>

definition build_three_parts :: "string \<Rightarrow> int list \<Rightarrow> nat \<Rightarrow> ShardedTensor list" where
  "build_three_parts ky t replica =
     [from_rank_offsets (ky @ ''part1'') t 0 1 replica False,
      from_rank_offsets (ky @ ''part2'') t 0 1 replica False,
      from_rank_offsets (ky @ ''part3'') t 0 1 replica False]"

subsection \<open>Keys that are missing or unexpected\<close>

text \<open>
  Modelled from the spec: the strict handling of key mismatches by
  \<^verbatim>\<open>dist_checkpointing.load\<close> (\<^verbatim>\<open>validation.py\<close>), which is missing. One policy is active
  in a load. The specification names the two sets of keys both ways round; the tests
  \<^verbatim>\<open>TestNonStrictLoad\<close> among the sources decide: a key is unexpected when it is requested
  and not in the checkpoint, and missing when it is in the checkpoint and not requested.
  The policies that end in \<^verbatim>\<open>UNEXPECTED\<close> do not look for missing keys.
  \<^verbatim>\<open>ASSUME_OK_UNEXPECTED\<close> leaves an unexpected key to the storage strategy, which raises an
  exception of its own (\<open>StrategyException\<close>); the policies that raise do so with a
  \<^verbatim>\<open>CheckpointingException\<close>. A report names the unexpected keys under the words
  \<^verbatim>\<open>Unexpected keys\<close> and the missing keys under the words \<^verbatim>\<open>Missing keys\<close>.
\<close>

datatype StrictHandling =
    ASSUME_OK_UNEXPECTED
  | LOG_UNEXPECTED
  | LOG_ALL
  | RAISE_UNEXPECTED
  | RAISE_ALL
  | RETURN_UNEXPECTED
  | RETURN_ALL
  | IGNORE_ALL

datatype load_result =
    StateDict
  | StateDictAndKeys "string set" "string set"

definition unexpected_keys :: "string list \<Rightarrow> string list \<Rightarrow> string list" where
  "unexpected_keys requested on_disk = filter (\<lambda>k. k \<notin> set on_disk) requested"

definition missing_keys :: "string list \<Rightarrow> string list \<Rightarrow> string list" where
  "missing_keys requested on_disk = filter (\<lambda>k. k \<notin> set requested) on_disk"

definition requires_missing_keys :: "StrictHandling \<Rightarrow> bool" where
  "requires_missing_keys strict = (strict = LOG_ALL \<or> strict = RAISE_ALL \<or> strict = RETURN_ALL)"

fun join_keys :: "string list \<Rightarrow> string" where
  "join_keys [] = []"
| "join_keys [k] = k"
| "join_keys (k # ks) = k @ '', '' @ join_keys ks"

definition report :: "string list \<Rightarrow> string list \<Rightarrow> string" where
  "report missing unexpected =
     (if unexpected = [] then [] else ''Unexpected keys: '' @ join_keys unexpected @ ''. '')
     @ (if missing = [] then [] else ''Missing keys: '' @ join_keys missing @ ''. '')"

text \<open>
  The result of a load as far as the keys go: what is logged, and the exception or what is
  returned.
\<close>

definition strict_load ::
  "StrictHandling \<Rightarrow> string list \<Rightarrow> string list \<Rightarrow> string list \<times> (exn + load_result)" where
  "strict_load strict requested on_disk =
     (let unexpected = unexpected_keys requested on_disk;
          missing = (if requires_missing_keys strict then missing_keys requested on_disk else [])
      in case strict of
           ASSUME_OK_UNEXPECTED \<Rightarrow>
             if unexpected \<noteq> [] then ([], Inl StrategyException) else ([], Inr StateDict)
         | IGNORE_ALL \<Rightarrow> ([], Inr StateDict)
         | RETURN_UNEXPECTED \<Rightarrow> ([], Inr (StateDictAndKeys (set missing) (set unexpected)))
         | RETURN_ALL \<Rightarrow> ([], Inr (StateDictAndKeys (set missing) (set unexpected)))
         | RAISE_UNEXPECTED \<Rightarrow>
             if missing \<noteq> [] \<or> unexpected \<noteq> []
             then ([], Inl (CheckpointingException (report missing unexpected)))
             else ([], Inr StateDict)
         | RAISE_ALL \<Rightarrow>
             if missing \<noteq> [] \<or> unexpected \<noteq> []
             then ([], Inl (CheckpointingException (report missing unexpected)))
             else ([], Inr StateDict)
         | LOG_UNEXPECTED \<Rightarrow>
             (if missing \<noteq> [] \<or> unexpected \<noteq> [] then [report missing unexpected] else [],
              Inr StateDict)
         | LOG_ALL \<Rightarrow>
             (if missing \<noteq> [] \<or> unexpected \<noteq> [] then [report missing unexpected] else [],
              Inr StateDict))"

section \<open>Properties\<close>

subsection \<open>The checkpoint version is assigned once\<close>

lemma set_checkpoint_versions_Some:
  "set_checkpoint_versions vs (Some v) =
     (if \<forall>w\<in>set vs. w = v then Inr (Some v) else Inl AssertionError)"
  by (induction vs) (auto simp: set_checkpoint_version_def)

text \<open>
  Claim C10. The checkpoint version is single-assignment. Before the first call of
  \<open>set_checkpoint_version\<close> the getter returns \<open>None\<close>. The first call stores its argument.
  A later call with the stored value leaves the state as it is, a later call with another
  value fails its assertion; hence a sequence of calls that starts with \<open>v\<close> ends with
  \<open>v\<close> stored when every later argument is \<open>v\<close>, and with an \<open>AssertionError\<close>
  otherwise. The getter returns what is stored.
\<close>

theorem checkpoint_version_single_assignment:
  "get_checkpoint_version (initial_checkpoint_version :: 'v option) = None
   \<and> set_checkpoint_version (v :: 'v) initial_checkpoint_version = Inr (Some v)
   \<and> set_checkpoint_version v (Some v) = Inr (Some v)
   \<and> (w \<noteq> v \<longrightarrow> set_checkpoint_version w (Some v) = Inl AssertionError)
   \<and> set_checkpoint_versions (v # vs) initial_checkpoint_version =
       (if \<forall>w\<in>set vs. w = v then Inr (Some v) else Inl AssertionError)
   \<and> get_checkpoint_version (Some v) = Some v"
  by (simp add: set_checkpoint_versions_Some get_checkpoint_version_def
      initial_checkpoint_version_def set_checkpoint_version_def)

theorem checkpoint_version_single_assignment_witness:
  "set_checkpoint_version (0::int) (Some 3) = Inl AssertionError
   \<and> set_checkpoint_versions [3, 3, 3 :: int] initial_checkpoint_version = Inr (Some 3)
   \<and> set_checkpoint_versions [3, 3, 0 :: int] initial_checkpoint_version = Inl AssertionError"
  using checkpoint_version_single_assignment [of "3::int" 0 "[3, 3]"]
    checkpoint_version_single_assignment [of "3::int" 0 "[3, 0]"]
  by simp

subsection \<open>Names of checkpoints\<close>

lemma digit_char_not_slash: "d < 10 \<Longrightarrow> digit_char d \<noteq> CHR ''/''"
proof -
  assume "d < 10"
  then have "d \<in> {0,1,2,3,4,5,6,7,8,9}" by auto
  then show ?thesis by (auto simp: digit_char_def)
qed

lemma str_nat_nonempty: "str_nat n \<noteq> []"
  by (induction n rule: str_nat.induct) (subst str_nat.simps, simp)

lemma last_str_nat: "last (str_nat n) = digit_char (n mod 10)"
  by (subst str_nat.simps) (simp add: str_nat_nonempty)

lemma last_str_nat_not_slash: "last (str_nat n) \<noteq> CHR ''/''"
  by (simp add: last_str_nat digit_char_not_slash)

lemma format_0d_nonempty: "format_0d w i \<noteq> []"
  by (simp add: format_0d_def zfill_def str_nat_nonempty)

lemma last_format_0d: "last (format_0d w i) \<noteq> CHR ''/''"
  by (simp add: format_0d_def zfill_def str_nat_nonempty last_str_nat_not_slash)

lemma join_step_rel:
  "b = [] \<or> hd b \<noteq> CHR ''/'' \<Longrightarrow> p \<noteq> [] \<Longrightarrow> last p \<noteq> CHR ''/'' \<Longrightarrow> join_step p b = p @ ''/'' @ b"
  by (auto simp add: join_step_def)

lemma join_step_below:
  "b = [] \<or> hd b \<noteq> CHR ''/'' \<Longrightarrow> join_step d b = below d @ b"
  by (auto simp add: join_step_def below_def)

lemma join_directory:
  "join_step d (if r then ''release'' else ''iter_'' @ format_0d 7 N)
     = below d @ (if r then ''release'' else ''iter_'' @ format_0d 7 N)"
  by (rule join_step_below) simp

lemma directory_last:
  "below d @ (if r then ''release'' else ''iter_'' @ format_0d 7 N) \<noteq> []"
  "last (below d @ (if r then ''release'' else ''iter_'' @ format_0d 7 N)) \<noteq> CHR ''/''"
  by (simp_all add: format_0d_nonempty last_format_0d)

lemma join_mp_rank:
  "p \<noteq> [] \<Longrightarrow> last p \<noteq> CHR ''/'' \<Longrightarrow> join_step p (CHR ''m'' # s) = p @ CHR ''/'' # CHR ''m'' # s"
  by (simp add: join_step_def)

text \<open>
  Claim C9. For every iteration \<open>N\<close>, \<open>get_checkpoint_name\<close> with \<open>return_base_dir\<close>
  returns the checkpoints path joined with \<^verbatim>\<open>iter_{N:07d}\<close>, or with \<^verbatim>\<open>release\<close> for a
  release checkpoint. Otherwise the path goes on with the directory
  \<^verbatim>\<open>mp_rank_{tp:02d}\<close>, followed by \<^verbatim>\<open>_{pp:03d}\<close> under pipeline parallelism and by
  \<^verbatim>\<open>_{exp:03d}\<close> under expert parallelism, and it ends with the basename, which is
  \<^verbatim>\<open>model_optim_rng.pt\<close> unless the caller passes another relative name. Flags and ranks
  that are not passed are the ones \<^verbatim>\<open>mpu\<close> reports.
\<close>

theorem get_checkpoint_name_layout:
  assumes "basename kw = [] \<or> hd (basename kw) \<noteq> CHR ''/''"
  shows "get_checkpoint_name mpu d N kw =
    (let directory = below d @ (if release kw then ''release'' else ''iter_'' @ format_0d 7 N);
         pp_on = (case pipeline_parallel kw of None \<Rightarrow> pipeline_model_parallel_world_size mpu > 1 | Some b \<Rightarrow> b);
         tp = (case tensor_rank kw of None \<Rightarrow> tensor_model_parallel_rank mpu | Some r \<Rightarrow> r);
         pp = (case pipeline_rank kw of None \<Rightarrow> pipeline_model_parallel_rank mpu | Some r \<Rightarrow> r);
         ep_on = (case expert_parallel kw of None \<Rightarrow> expert_model_parallel_world_size mpu > 1 | Some b \<Rightarrow> b);
         ep = (case expert_rank kw of None \<Rightarrow> expert_model_parallel_rank mpu | Some r \<Rightarrow> r)
     in if return_base_dir kw then directory
        else directory @ ''/mp_rank_'' @ format_0d 2 tp
               @ (if pp_on then ''_'' @ format_0d 3 pp else [])
               @ (if ep_on then ''_'' @ format_0d 3 ep else [])
               @ ''/'' @ basename kw)"
proof -
  define directory where "directory = below d @ (if release kw then ''release'' else ''iter_'' @ format_0d 7 N)"
  define pp_on where "pp_on = (case pipeline_parallel kw of None \<Rightarrow> pipeline_model_parallel_world_size mpu > 1 | Some b \<Rightarrow> b)"
  define tp where "tp = (case tensor_rank kw of None \<Rightarrow> tensor_model_parallel_rank mpu | Some r \<Rightarrow> r)"
  define pp where "pp = (case pipeline_rank kw of None \<Rightarrow> pipeline_model_parallel_rank mpu | Some r \<Rightarrow> r)"
  define ep_on where "ep_on = (case expert_parallel kw of None \<Rightarrow> expert_model_parallel_world_size mpu > 1 | Some b \<Rightarrow> b)"
  define ep where "ep = (case expert_rank kw of None \<Rightarrow> expert_model_parallel_rank mpu | Some r \<Rightarrow> r)"
  define common where "common = directory @ ''/mp_rank_'' @ format_0d 2 tp
               @ (if pp_on then ''_'' @ format_0d 3 pp else [])
               @ (if ep_on then ''_'' @ format_0d 3 ep else [])"
  have dir: "join_step d (if release kw then ''release'' else ''iter_'' @ format_0d 7 N) = directory"
    unfolding directory_def by (rule join_directory)
  have dne: "directory \<noteq> []" "last directory \<noteq> CHR ''/''"
    unfolding directory_def by (rule directory_last)+
  have cne: "common \<noteq> []" "last common \<noteq> CHR ''/''"
    by (simp_all add: common_def format_0d_nonempty last_format_0d)
  have fin: "join_step common (basename kw) = common @ ''/'' @ basename kw"
    using assms cne by (rule join_step_rel)
  have "get_checkpoint_name mpu d N kw =
     (if return_base_dir kw then directory else join_step common (basename kw))"
    unfolding get_checkpoint_name_def Let_def os_path_join_def foldl.simps dir
      pp_on_def[symmetric] tp_def[symmetric] pp_def[symmetric] ep_on_def[symmetric] ep_def[symmetric]
    by (simp add: join_mp_rank[OF dne] common_def)
  then show ?thesis
    unfolding Let_def directory_def[symmetric] pp_on_def[symmetric] tp_def[symmetric]
      pp_def[symmetric] ep_on_def[symmetric] ep_def[symmetric] fin
    by (simp add: common_def)
qed

theorem get_checkpoint_name_layout_witness:
  "get_checkpoint_name
     \<lparr> pipeline_model_parallel_world_size = 4, tensor_model_parallel_rank = 1,
       pipeline_model_parallel_rank = 3, expert_model_parallel_world_size = 1,
       expert_model_parallel_rank = 0 \<rparr>
     ''/ckpt'' 1234 default_name_args
   = ''/ckpt/iter_0001234/mp_rank_01_003/model_optim_rng.pt''
   \<and> get_checkpoint_name
     \<lparr> pipeline_model_parallel_world_size = 4, tensor_model_parallel_rank = 1,
       pipeline_model_parallel_rank = 3, expert_model_parallel_world_size = 1,
       expert_model_parallel_rank = 0 \<rparr>
     ''/ckpt'' 1234 (default_name_args \<lparr> release := True, return_base_dir := True \<rparr>)
   = ''/ckpt/release''"
proof -
  have f: "format_0d 7 1234 = ''0001234''" "format_0d 2 1 = ''01''" "format_0d 3 3 = ''003''"
    by code_simp+
  show ?thesis
    using get_checkpoint_name_layout [of default_name_args
       "\<lparr> pipeline_model_parallel_world_size = 4, tensor_model_parallel_rank = 1,
         pipeline_model_parallel_rank = 3, expert_model_parallel_world_size = 1,
         expert_model_parallel_rank = 0 \<rparr>" "''/ckpt''" 1234]
      get_checkpoint_name_layout [of "default_name_args \<lparr> release := True, return_base_dir := True \<rparr>"
       "\<lparr> pipeline_model_parallel_world_size = 4, tensor_model_parallel_rank = 1,
         pipeline_model_parallel_rank = 3, expert_model_parallel_world_size = 1,
         expert_model_parallel_rank = 0 \<rparr>" "''/ckpt''" 1234]
    by (simp add: default_name_args_def below_def f)
qed

lemma length_str_nat_le: "n < 10 ^ w \<Longrightarrow> 0 < w \<Longrightarrow> length (str_nat n) \<le> w"
proof (induction n arbitrary: w rule: str_nat.induct)
  case (1 n)
  show ?case
  proof (cases "n < 10")
    case True
    then show ?thesis using 1(3) by (subst str_nat.simps) simp
  next
    case False
    then obtain w' where w': "w = Suc w'" and "0 < w'" using 1(2,3)
      by (cases w; cases "w - 1") auto
    have "n div 10 < 10 ^ w'" using 1(2) w' by (simp add: less_mult_imp_div_less mult.commute)
    then have "length (str_nat (n div 10)) \<le> w'" using 1(1)[OF False _ \<open>0 < w'\<close>] by simp
    then show ?thesis using False w' by (subst str_nat.simps) simp
  qed
qed

lemma length_format_0d: "0 \<le> i \<Longrightarrow> i < 10 ^ w \<Longrightarrow> 0 < w \<Longrightarrow> length (format_0d w i) = w"
proof -
  assume a: "0 \<le> i" "i < 10 ^ w" "0 < w"
  have "nat i < 10 ^ w" using a by (metis nat_less_iff of_nat_numeral of_nat_power)
  then have "length (str_nat (nat i)) \<le> w" using a(3) by (rule length_str_nat_le)
  then show ?thesis using a by (simp add: format_0d_def zfill_def)
qed


subsection \<open>The tracker file\<close>














subsection \<open>The non-persistent checkpoint against the persistent one\<close>

lemma io_bind_pair:
  "io_bind (out, Inr x) f = (out @ fst (f x), snd (f x))"
  "io_bind (out, Inl e) f = (out, Inl e)"
  by (simp_all add: io_bind_def split: prod.splits)

lemma io_then_pair:
  "io_then (out, Inr u) k = (out @ fst k, snd k)"
  "io_then (out, Inl e) k = (out, Inl e)"
  by (simp_all add: io_then_def io_bind_pair)

lemmas io_pair = io_return_def io_raise_def io_emit_def io_bind_pair io_then_pair

lemma choose_base_checkpoint_unfold:
  assumes np: "get_non_persistent_iteration w (non_persistent_global_dir_of load_dir a) a = (out1, Inr np)"
    and tr: "read_tracker w load_dir = (out2, Inr (tracker_iteration, rel))"
  shows "choose_base_checkpoint w load_dir a rank0 =
     (let iteration = resolve_iteration a tracker_iteration in
      if np \<noteq> - 1 \<and> np \<ge> iteration
      then (out1 @ out2, Inr (Some (NonPersistent (non_persistent_global_dir_of load_dir a) np)))
      else if iteration = - 1 then
        if exit_on_missing_checkpoint a then
          (out1 @ out2 @ (if np \<noteq> - 1 then [PrintRank0 Warn_non_persistent_older] else [])
             @ (if \<not> rank0 then [PrintRank0 (Warn_no_metadata_file (tracker_filename_of load_dir)),
                                  PrintRank0 Info_start_from_random] else [])
             @ [PrintRank0 Info_exit_on_missing_checkpoint]
             @ (if w_dist w \<noteq> None then [Barrier] else []),
           Inl SystemExit)
        else
          (out1 @ out2 @ (if np \<noteq> - 1 then [PrintRank0 Warn_non_persistent_older] else [])
             @ (if \<not> rank0 then [PrintRank0 (Warn_no_metadata_file (tracker_filename_of load_dir)),
                                  PrintRank0 Info_start_from_random] else []),
           Inr None)
      else
        (out1 @ out2 @ (if np \<noteq> - 1 then [PrintRank0 Warn_non_persistent_older] else []),
         case load_dir of
           None \<Rightarrow> Inl TypeError
         | Some dir \<Rightarrow> Inr (Some (Persistent
              (get_checkpoint_name (w_mpu w) dir iteration
                 (default_name_args \<lparr> release := rel, return_base_dir := True \<rparr>))
              iteration rel))))"
  unfolding choose_base_checkpoint_def Let_def
  by (simp add: np tr io_pair split: option.splits)

text \<open>
  Claim C3, as amended. When a non-persistent checkpoint exists (its iteration is not
  \<open>-1\<close>), \<^verbatim>\<open>_load_base_checkpoint\<close> goes on to read the non-persistent checkpoint exactly
  when its iteration is at least the iteration of the persistent checkpoint, which is
  \<^verbatim>\<open>args.ckpt_step\<close> where the user has set one and otherwise the iteration of the
  persistent tracker file (\<open>-1\<close> without such a file). Otherwise the warning is printed and
  the persistent checkpoint of that iteration is the one that is read.
\<close>

theorem non_persistent_checkpoint_choice:
  assumes np: "get_non_persistent_iteration w (non_persistent_global_dir_of load_dir a) a = (out1, Inr np)"
    and tr: "read_tracker w load_dir = (out2, Inr (tracker_iteration, rel))"
    and ex: "np \<noteq> - 1"
  shows "(snd (choose_base_checkpoint w load_dir a rank0)
            = Inr (Some (NonPersistent (non_persistent_global_dir_of load_dir a) np)))
          = (np \<ge> resolve_iteration a tracker_iteration)
    \<and> (np < resolve_iteration a tracker_iteration \<longrightarrow>
          PrintRank0 Warn_non_persistent_older \<in> set (fst (choose_base_checkpoint w load_dir a rank0))
          \<and> (\<forall>dir. load_dir = Some dir \<and> 0 \<le> np \<longrightarrow>
                snd (choose_base_checkpoint w load_dir a rank0)
                  = Inr (Some (Persistent
                      (get_checkpoint_name (w_mpu w) dir (resolve_iteration a tracker_iteration)
                         (default_name_args \<lparr> release := rel, return_base_dir := True \<rparr>))
                      (resolve_iteration a tracker_iteration) rel))))
    \<and> resolve_iteration a tracker_iteration
          = (case ckpt_step a of
               None \<Rightarrow> tracker_iteration
             | Some st \<Rightarrow> if st \<noteq> 0 then st else tracker_iteration)"
proof -
  let ?it = "resolve_iteration a tracker_iteration"
  note unf = choose_base_checkpoint_unfold [OF np tr, of rank0]
  have won: "snd (choose_base_checkpoint w load_dir a rank0)
       = Inr (Some (NonPersistent (non_persistent_global_dir_of load_dir a) np))"
    if "np \<ge> ?it"
    using that ex by (simp add: unf Let_def)
  have lost: "snd (choose_base_checkpoint w load_dir a rank0)
       \<noteq> Inr (Some (NonPersistent (non_persistent_global_dir_of load_dir a) np))"
    if "np < ?it"
    using that by (auto simp: unf Let_def split: option.splits)
  have warn: "PrintRank0 Warn_non_persistent_older \<in> set (fst (choose_base_checkpoint w load_dir a rank0))"
    if "np < ?it"
    using that ex by (simp add: unf Let_def)
  have pers: "snd (choose_base_checkpoint w load_dir a rank0)
       = Inr (Some (Persistent
            (get_checkpoint_name (w_mpu w) dir ?it
               (default_name_args \<lparr> release := rel, return_base_dir := True \<rparr>)) ?it rel))"
    if "np < ?it" "load_dir = Some dir" "0 \<le> np" for dir
    unfolding unf Let_def using that by simp
  have res: "?it = (case ckpt_step a of
               None \<Rightarrow> tracker_iteration
             | Some st \<Rightarrow> if st \<noteq> 0 then st else tracker_iteration)"
    by (simp add: resolve_iteration_def)
  have iff: "(snd (choose_base_checkpoint w load_dir a rank0)
            = Inr (Some (NonPersistent (non_persistent_global_dir_of load_dir a) np)))
          = (np \<ge> ?it)"
    using won lost by (cases "np \<ge> ?it") auto
  show ?thesis
    using iff warn pers res by blast
qed

lemma example_tracker:
  "get_checkpoint_tracker_filename ''/ckpt'' = ''/ckpt/latest_checkpointed_iteration.txt''"
  by (simp add: get_checkpoint_tracker_filename_def os_path_join_def join_step_def)

lemma example_read_50:
  "read_tracker (plain_world \<lparr> w_fs := [''/ckpt/latest_checkpointed_iteration.txt'' \<mapsto> ''50''], w_find_latest := Some 70 \<rparr>)
     (Some ''/ckpt'') = ([], Inr (50, False))"
proof -
  have p: "py_int (strip ''50'') = Some 50" by code_simp
  show ?thesis
    by (simp add: read_tracker_def example_tracker isfile_def plain_world_def read_metadata_def
        p io_pair)
qed

lemma example_find_latest_70:
  "get_non_persistent_iteration
     (plain_world \<lparr> w_fs := fs, w_find_latest := Some 70 \<rparr>) d
     (plain_args \<lparr> non_persistent_ckpt_type := Some ''local'', ckpt_step := st \<rparr>)
   = ([], Inr 70)"
  by (simp add: get_non_persistent_iteration_def plain_args_def plain_world_def io_pair)

lemma example_iter_100: "format_0d 7 100 = ''0000100''" "format_0d 7 50 = ''0000050''"
  by code_simp+

theorem non_persistent_checkpoint_choice_witness:
  "snd (choose_base_checkpoint
     (plain_world \<lparr> w_fs := [''/ckpt/latest_checkpointed_iteration.txt'' \<mapsto> ''50''], w_find_latest := Some 70 \<rparr>)
     (Some ''/ckpt'')
     (plain_args \<lparr> non_persistent_ckpt_type := Some ''local'', ckpt_step := None \<rparr>) False)
   = Inr (Some (NonPersistent (Some ''/ckpt/non_persistent'') 70))"
  using non_persistent_checkpoint_choice [OF example_find_latest_70 example_read_50, of None False]
  by (simp add: resolve_iteration_def plain_args_def non_persistent_global_dir_of_def truthy_str_def
      os_path_join_def join_step_def)

text \<open>
  Claim C3 as it was stated, with the comparison against the tracker's iteration, fails
  under \<^verbatim>\<open>--ckpt-step\<close>: the tracker file says 50, the non-persistent checkpoint is of
  iteration 70, the user asks for step 100, and the persistent checkpoint is read.
\<close>

theorem non_persistent_checkpoint_choice_counterexample:
  "read_tracker
     (plain_world \<lparr> w_fs := [''/ckpt/latest_checkpointed_iteration.txt'' \<mapsto> ''50''], w_find_latest := Some 70 \<rparr>)
     (Some ''/ckpt'') = ([], Inr (50, False))
   \<and> get_non_persistent_iteration
     (plain_world \<lparr> w_fs := [''/ckpt/latest_checkpointed_iteration.txt'' \<mapsto> ''50''], w_find_latest := Some 70 \<rparr>)
     (Some ''/ckpt/non_persistent'')
     (plain_args \<lparr> non_persistent_ckpt_type := Some ''local'', ckpt_step := Some 100 \<rparr>)
     = ([], Inr 70)
   \<and> choose_base_checkpoint
     (plain_world \<lparr> w_fs := [''/ckpt/latest_checkpointed_iteration.txt'' \<mapsto> ''50''], w_find_latest := Some 70 \<rparr>)
     (Some ''/ckpt'')
     (plain_args \<lparr> non_persistent_ckpt_type := Some ''local'', ckpt_step := Some 100 \<rparr>) False
   = ([PrintRank0 Warn_non_persistent_older], Inr (Some (Persistent ''/ckpt/iter_0000100'' 100 False)))"
proof -
  have "choose_base_checkpoint
     (plain_world \<lparr> w_fs := [''/ckpt/latest_checkpointed_iteration.txt'' \<mapsto> ''50''], w_find_latest := Some 70 \<rparr>)
     (Some ''/ckpt'')
     (plain_args \<lparr> non_persistent_ckpt_type := Some ''local'', ckpt_step := Some 100 \<rparr>) False
   = ([PrintRank0 Warn_non_persistent_older], Inr (Some (Persistent ''/ckpt/iter_0000100'' 100 False)))"
    unfolding choose_base_checkpoint_unfold [OF example_find_latest_70 example_read_50]
    by (simp add: resolve_iteration_def plain_args_def plain_world_def Let_def
        get_checkpoint_name_def default_name_args_def
        os_path_join_def join_step_def example_iter_100)
  then show ?thesis
    using example_read_50 example_find_latest_70 by simp
qed

subsection \<open>Loading without a checkpoint\<close>

lemma read_tracker_missing:
  "\<not> checkpoint_exists (w_fs w) load_dir \<Longrightarrow> read_tracker w load_dir = ([], Inr (- 1, False))"
  by (simp add: checkpoint_exists_def read_tracker_def io_pair split: option.splits)

lemma load_base_checkpoint_none:
  "choose_base_checkpoint w load_dir a rank0 = (out, Inr None)
   \<Longrightarrow> load_base_checkpoint w load_dir a rank0 = (out, Inr None)"
  by (simp add: load_base_checkpoint_def io_pair)

lemma load_base_checkpoint_raise:
  "choose_base_checkpoint w load_dir a rank0 = (out, Inl e)
   \<Longrightarrow> load_base_checkpoint w load_dir a rank0 = (out, Inl e)"
  by (simp add: load_base_checkpoint_def io_pair)

text \<open>
  Claim C6, as amended. When \<^verbatim>\<open>_load_base_checkpoint\<close> finds no tracker file and no
  non-persistent checkpoint, and the user has set no \<^verbatim>\<open>ckpt_step\<close>, then without the flag
  \<^verbatim>\<open>exit_on_missing_checkpoint\<close> it returns the sentinel with the state dict \<^verbatim>\<open>None\<close>,
  having printed the warning unless it was called with \<^verbatim>\<open>rank0=True\<close>, and
  \<open>load_checkpoint\<close> (not in the ModelOpt format, without a pretrained checkpoint to fall
  back to) returns the iteration 0 and 0 floating-point operations; with the flag the process
  exits instead, after a message.
\<close>

theorem missing_checkpoint_starts_from_scratch:
  assumes np: "get_non_persistent_iteration w (non_persistent_global_dir_of (load a) a) a = (out1, Inr (- 1))"
    and nt: "\<not> checkpoint_exists (w_fs w) (load a)"
    and ns: "ckpt_step a = None \<or> ckpt_step a = Some 0"
    and nm: "\<not> load_model_opt_format a"
    and npre: "pretrained_checkpoint a = None"
  shows "(\<not> exit_on_missing_checkpoint a \<longrightarrow>
           load_base_checkpoint w (load a) a rank0
             = (out1 @ (if rank0 then []
                        else [PrintRank0 (Warn_no_metadata_file (tracker_filename_of (load a))),
                              PrintRank0 Info_start_from_random]),
                Inr None)
           \<and> snd (load_checkpoint w a) = Inr (0, 0))
       \<and> (exit_on_missing_checkpoint a \<longrightarrow>
           snd (load_base_checkpoint w (load a) a rank0) = Inl SystemExit
           \<and> PrintRank0 Info_exit_on_missing_checkpoint
                \<in> set (fst (load_base_checkpoint w (load a) a rank0))
           \<and> snd (load_checkpoint w a) = Inl SystemExit)"
proof -
  have res: "resolve_iteration a (- 1) = - 1"
    using ns by (auto simp: resolve_iteration_def)
  note unf = choose_base_checkpoint_unfold [OF np read_tracker_missing [OF nt]]
  have pre: "pretrained_fallback w a = ([], Inr (load a, a))"
    by (simp add: pretrained_fallback_def npre io_pair)
  show ?thesis
  proof (cases "exit_on_missing_checkpoint a")
    case False
    have ch: "choose_base_checkpoint w (load a) a r0
             = (out1 @ (if r0 then []
                        else [PrintRank0 (Warn_no_metadata_file (tracker_filename_of (load a))),
                              PrintRank0 Info_start_from_random]),
                Inr None)" for r0
      unfolding unf Let_def res using False by simp
    have lb: "load_base_checkpoint w (load a) a r0
             = (out1 @ (if r0 then []
                        else [PrintRank0 (Warn_no_metadata_file (tracker_filename_of (load a))),
                              PrintRank0 Info_start_from_random]),
                Inr None)" for r0
      by (rule load_base_checkpoint_none [OF ch])
    have "snd (load_checkpoint w a) = Inr (0, 0)"
      unfolding load_checkpoint_def using nm
      by (simp add: pre lb io_pair default_request_def)
    then show ?thesis using False lb by simp
  next
    case True
    obtain out where ch: "choose_base_checkpoint w (load a) a r0 = (out r0, Inl SystemExit)"
      and mem: "PrintRank0 Info_exit_on_missing_checkpoint \<in> set (out r0)" for r0
    proof -
      have "\<exists>out. choose_base_checkpoint w (load a) a r0 = (out, Inl SystemExit)
                \<and> PrintRank0 Info_exit_on_missing_checkpoint \<in> set out" for r0
        unfolding unf Let_def res using True by simp
      then show ?thesis using that by metis
    qed
    have lb: "load_base_checkpoint w (load a) a r0 = (out r0, Inl SystemExit)" for r0
      by (rule load_base_checkpoint_raise [OF ch])
    have "snd (load_checkpoint w a) = Inl SystemExit"
      unfolding load_checkpoint_def using nm
      by (simp add: pre lb io_pair default_request_def)
    then show ?thesis using True lb mem by simp
  qed
qed

lemma plain_args_simps:
  "async_save plain_args = False"
  "use_dist_ckpt plain_args = False"
  "save plain_args = ''/ckpt''"
  "load plain_args = Some ''/ckpt''"
  "non_persistent_ckpt_type plain_args = None"
  "non_persistent_global_ckpt_dir plain_args = None"
  "ckpt_format plain_args = ''torch_dist''"
  "ckpt_step plain_args = None"
  "exit_on_missing_checkpoint plain_args = False"
  "auto_detect_ckpt_format plain_args = False"
  "load_model_opt_format plain_args = False"
  "pretrained_checkpoint plain_args = None"
  "finetune plain_args = False"
  "no_load_rng plain_args = False"
  "no_load_optim plain_args = False"
  "no_save_rng plain_args = False"
  "no_save_optim plain_args = False"
  "use_distributed_optimizer plain_args = False"
  "ckpt_fully_parallel_save plain_args = False"
  "ckpt_assume_constant_structure plain_args = False"
  "tensor_model_parallel_size plain_args = 1"
  "pipeline_model_parallel_size plain_args = 1"
  "world_size plain_args = Some 8"
  "data_parallel_size plain_args = Some 8"
  by (simp_all add: plain_args_def)

lemma example_no_non_persistent:
  "non_persistent_ckpt_type a = None \<Longrightarrow> get_non_persistent_iteration w d a = ([], Inr (- 1))"
  by (simp add: get_non_persistent_iteration_def io_pair)

lemma example_no_tracker: "\<not> checkpoint_exists (w_fs plain_world) (Some ''/ckpt'')"
  by (simp add: checkpoint_exists_def plain_world_def isfile_def)

theorem missing_checkpoint_starts_from_scratch_witness:
  "load_base_checkpoint plain_world (Some ''/ckpt'') plain_args False
     = ([PrintRank0 (Warn_no_metadata_file ''/ckpt/latest_checkpointed_iteration.txt''),
         PrintRank0 Info_start_from_random], Inr None)
   \<and> snd (load_checkpoint plain_world plain_args) = Inr (0, 0)
   \<and> snd (load_checkpoint plain_world (plain_args \<lparr> exit_on_missing_checkpoint := True \<rparr>))
       = Inl SystemExit"
proof -
  have a: "load plain_args = Some ''/ckpt''" "non_persistent_ckpt_type plain_args = None"
    "ckpt_step plain_args = None \<or> ckpt_step plain_args = Some 0"
    "\<not> load_model_opt_format plain_args" "pretrained_checkpoint plain_args = None"
    "\<not> exit_on_missing_checkpoint plain_args"
    by (simp_all add: plain_args_def)
  let ?b = "plain_args \<lparr> exit_on_missing_checkpoint := True \<rparr>"
  have b: "load ?b = Some ''/ckpt''" "non_persistent_ckpt_type ?b = None"
    "ckpt_step ?b = None \<or> ckpt_step ?b = Some 0"
    "\<not> load_model_opt_format ?b" "pretrained_checkpoint ?b = None"
    "exit_on_missing_checkpoint ?b"
    by (simp_all add: plain_args_def)
  have nt: "\<not> checkpoint_exists (w_fs plain_world) (load plain_args)"
    "\<not> checkpoint_exists (w_fs plain_world) (load ?b)"
    using example_no_tracker by (simp_all add: a(1))
  show ?thesis
    using missing_checkpoint_starts_from_scratch
            [OF example_no_non_persistent [OF a(2)] nt(1) a(3) a(4) a(5), of False]
          missing_checkpoint_starts_from_scratch
            [OF example_no_non_persistent [OF b(2)] nt(2) b(3) b(4) b(5), of False]
          a(6) b(6)
    by (simp add: a(1) tracker_filename_of_def example_tracker)
qed

text \<open>
  Claim C6 as it was stated fails under \<^verbatim>\<open>--ckpt-step\<close>: there is no tracker file, no
  non-persistent checkpoint and no exit flag, yet the checkpoint of the step the user has
  named is read and \<open>load_checkpoint\<close> returns its iteration.
\<close>

theorem missing_checkpoint_counterexample:
  "\<not> checkpoint_exists (w_fs plain_world) (Some ''/ckpt'')
   \<and> get_non_persistent_iteration plain_world (Some ''/ckpt/non_persistent'')
        (plain_args \<lparr> ckpt_step := Some 5 \<rparr>) = ([], Inr (- 1))
   \<and> \<not> exit_on_missing_checkpoint (plain_args \<lparr> ckpt_step := Some 5 \<rparr>)
   \<and> choose_base_checkpoint plain_world (Some ''/ckpt'') (plain_args \<lparr> ckpt_step := Some 5 \<rparr>) False
       = ([], Inr (Some (Persistent ''/ckpt/iter_0000005'' 5 False)))
   \<and> snd (load_checkpoint plain_world (plain_args \<lparr> ckpt_step := Some 5 \<rparr>)) = Inr (5, 4000)"
proof -
  let ?a = "plain_args \<lparr> ckpt_step := Some 5 \<rparr>"
  have np: "get_non_persistent_iteration plain_world d ?a = ([], Inr (- 1))" for d
    by (rule example_no_non_persistent) (simp add: plain_args_def)
  have f: "format_0d 7 5 = ''0000005''" by code_simp
  have ch: "choose_base_checkpoint plain_world (Some ''/ckpt'') ?a r0
       = ([], Inr (Some (Persistent ''/ckpt/iter_0000005'' 5 False)))" for r0
    unfolding choose_base_checkpoint_unfold [OF np read_tracker_missing [OF example_no_tracker]]
    by (simp add: resolve_iteration_def plain_args_def Let_def get_checkpoint_name_def
        default_name_args_def os_path_join_def join_step_def f)
  have lb: "load_base_checkpoint plain_world (Some ''/ckpt'') ?a r0
       = ([], Inr (Some \<lparr> ld_state_dict = plain_state_dict \<lparr> sd_iteration := Some 5 \<rparr>,
                ld_checkpoint_name = ''/ckpt/iter_0000005'',
                ld_release = False, ld_ckpt_type = GLOBAL \<rparr>))" for r0
    unfolding load_base_checkpoint_def ch by (simp add: io_pair plain_world_def)
  have rq: "torch_dist_request plain_world ?a (plain_state_dict \<lparr> sd_iteration := Some 5 \<rparr>) False
       = ([PrintRank0 (Info_sharded_sd_metadata (Some (Some ''dp_zero_gather_scatter'')))],
          Inr \<lparr> ignore_rng_state = False, ignore_rerun_state = False, gen_sd_rng_state = True,
               gen_sd_optim = True, gen_sd_rerun_state = True \<rparr>)"
    by (simp add: torch_dist_request_def plain_state_dict_def plain_args_def plain_world_def
        Let_def io_pair getattr_0_def)
  have flds: "load_model_opt_format ?a = False" "pretrained_checkpoint ?a = None"
    "load ?a = Some ''/ckpt''" "ckpt_format ?a = ''torch_dist''" "finetune ?a = False"
    "no_load_optim ?a = False" "no_load_rng ?a = False" "exit_on_missing_checkpoint ?a = False"
    by (simp_all add: plain_args_def)
  have fin: "snd (finish_load plain_world ?a (Some ''/ckpt'')
        \<lparr> ignore_rng_state = False, ignore_rerun_state = False, gen_sd_rng_state = True,
               gen_sd_optim = True, gen_sd_rerun_state = True \<rparr>
        \<lparr> ld_state_dict = plain_state_dict \<lparr> sd_iteration := Some 5 \<rparr>,
                ld_checkpoint_name = ''/ckpt/iter_0000005'',
                ld_release = False, ld_ckpt_type = GLOBAL \<rparr>) = Inr (5, 4000)"
    by (simp add: finish_load_def flds plain_state_dict_def Let_def io_pair)
  have "snd (load_checkpoint plain_world ?a) = Inr (5, 4000)"
    unfolding load_checkpoint_def pretrained_fallback_def flds
    by (simp add: lb rq fin io_pair plain_args_simps)
  then show ?thesis
    using example_no_tracker np ch flds(8) by simp
qed

subsection \<open>Loading under another parallel topology\<close>









subsection \<open>Saving while an asynchronous save is outstanding\<close>

lemma save_checkpoint_body_queue:
  "save_checkpoint_body (w \<lparr> w_is_empty_async_queue := q \<rparr>) a p = save_checkpoint_body w a p"
  by (simp add: save_checkpoint_body_def save_state_dict_def split_beta Let_def cong: if_cong)

text \<open>
  Claim C5. When \<open>save_checkpoint\<close> is called with \<^verbatim>\<open>async_save\<close> while the queue of
  asynchronous saves is not empty, it prints the warning through \<^verbatim>\<open>print_rank_0\<close> and then
  does exactly what it does when the queue is empty: the same calls in the same order, with
  no barrier or wait added, and the same outcome, so that no exception is raised for the
  outstanding save.
\<close>

theorem save_during_outstanding_async_save:
  assumes "async_save a"
  shows "save_checkpoint (w \<lparr> w_is_empty_async_queue := False \<rparr>) a p
    = (PrintRank0 Warn_save_before_previous_finished
         # fst (save_checkpoint (w \<lparr> w_is_empty_async_queue := True \<rparr>) a p),
       snd (save_checkpoint (w \<lparr> w_is_empty_async_queue := True \<rparr>) a p))"
  using assms
  by (simp add: save_checkpoint_def save_checkpoint_body_queue io_pair)

lemma example_save_names:
  "format_0d 7 100 = ''0000100''"
  by code_simp

theorem save_during_outstanding_async_save_witness:
  "save_checkpoint (plain_world \<lparr> w_is_empty_async_queue := False \<rparr>)
     (plain_args \<lparr> async_save := True, use_dist_ckpt := True \<rparr>) plain_save_params
   = ([PrintRank0 Warn_save_before_previous_finished,
       OnSaveCheckpointStart True, FtOnCheckpointingStart,
       PrintRank0 (Info_saving_checkpoint 100 ''/ckpt'' ''torch_dist''),
       MaybeSaveDataloaderState,
       EnsureDirectoryExists ''/ckpt/iter_0000100'',
       DistCheckpointingSave ''/ckpt/iter_0000100'' True True,
       AddFinalizeFn IterFinalize, AddFinalizeFn OneLoggerFinalize, AddFinalizeFn WandbFinalize,
       ScheduleAsyncSave, PrintRank0 (Info_scheduled_async_save 100 ''/ckpt''),
       FtOnCheckpointingEnd],
      Inr ())"
proof -
  let ?a = "plain_args \<lparr> async_save := True, use_dist_ckpt := True \<rparr>"
  have a: "async_save ?a" by simp
  have t: "save_target ?a plain_save_params = ([], Inr (GLOBAL, ''/ckpt''))"
    by (simp add: save_target_def plain_save_params_def plain_args_simps io_pair)
  have n: "get_checkpoint_name w ''/ckpt'' 100
       (default_name_args \<lparr> release := False, return_base_dir := True,
                            basename := ''model_optim_rng.pt'' \<rparr>) = ''/ckpt/iter_0000100''" for w
    by (simp add: get_checkpoint_name_def default_name_args_def os_path_join_def join_step_def
        example_save_names)
  have e: "save_checkpoint (plain_world \<lparr> w_is_empty_async_queue := True \<rparr>) ?a plain_save_params
    = ([OnSaveCheckpointStart True, FtOnCheckpointingStart,
       PrintRank0 (Info_saving_checkpoint 100 ''/ckpt'' ''torch_dist''),
       MaybeSaveDataloaderState,
       EnsureDirectoryExists ''/ckpt/iter_0000100'',
       DistCheckpointingSave ''/ckpt/iter_0000100'' True True,
       AddFinalizeFn IterFinalize, AddFinalizeFn OneLoggerFinalize, AddFinalizeFn WandbFinalize,
       ScheduleAsyncSave, PrintRank0 (Info_scheduled_async_save 100 ''/ckpt''),
       FtOnCheckpointingEnd],
      Inr ())"
    unfolding save_checkpoint_def save_checkpoint_body_def t
    by (simp add: io_pair Let_def plain_save_params_def n plain_args_simps plain_world_def
        save_state_dict_def finalize_def)
  show ?thesis
    using save_during_outstanding_async_save [OF a, of plain_world plain_save_params] e
    by simp
qed

subsection \<open>Keys that are missing or unexpected\<close>

lemma sublist_join_keys: "k \<in> set ks \<Longrightarrow> sublist k (join_keys ks)"
proof (induction ks rule: join_keys.induct)
  case 1
  then show ?case by simp
next
  case (2 k')
  then show ?case by simp
next
  case (3 k' v va)
  show ?case
  proof (cases "k = k'")
    case True
    have "join_keys (k' # v # va) = [] @ k @ ('', '' @ join_keys (v # va))"
      using True by simp
    then show ?thesis unfolding sublist_def by blast
  next
    case False
    then have "sublist k (join_keys (v # va))" using 3 by simp
    then obtain ps ss where "join_keys (v # va) = ps @ k @ ss"
      unfolding sublist_def by blast
    then have "join_keys (k' # v # va) = (k' @ '', '' @ ps) @ k @ ss" by simp
    then show ?thesis unfolding sublist_def by blast
  qed
qed

lemma set_join_keys: "set (join_keys ks) \<subseteq> (\<Union>k \<in> set ks. set k) \<union> set '', ''"
  by (induction ks rule: join_keys.induct) auto

lemma unexpected_keys_set: "set (unexpected_keys requested on_disk) = set requested - set on_disk"
  by (auto simp: unexpected_keys_def)

lemma missing_keys_set: "set (missing_keys requested on_disk) = set on_disk - set requested"
  by (auto simp: missing_keys_def)

lemma no_M_no_missing_keys: "CHR ''M'' \<notin> set msg \<Longrightarrow> \<not> sublist ''Missing keys'' msg"
proof
  assume a: "CHR ''M'' \<notin> set msg" and b: "sublist ''Missing keys'' msg"
  from b have "set ''Missing keys'' \<subseteq> set msg" by (rule set_mono_sublist)
  then show False using a by simp
qed

lemma strict_load_return_all:
  "strict_load RETURN_ALL req disk
     = ([], Inr (StateDictAndKeys (set disk - set req) (set req - set disk)))"
  by (simp add: strict_load_def requires_missing_keys_def unexpected_keys_set missing_keys_set)

lemma strict_load_raise_unexpected:
  assumes d: "D \<in> set requested" "D \<notin> set on_disk"
    and m: "\<forall>k \<in> set requested. CHR ''M'' \<notin> set k"
  shows "\<exists>msg. strict_load RAISE_UNEXPECTED requested on_disk
                 = ([], Inl (CheckpointingException msg))
               \<and> sublist ''Unexpected keys'' msg \<and> sublist D msg
               \<and> \<not> sublist ''Missing keys'' msg"
proof -
  define u where "u = unexpected_keys requested on_disk"
  define msg where "msg = ''Unexpected keys: '' @ join_keys u @ ''. ''"
  have su: "set u = set requested - set on_disk"
    unfolding u_def by (rule unexpected_keys_set)
  have du: "D \<in> set u" using d su by simp
  then have ne: "u \<noteq> []" by auto
  have rep: "report [] u = msg"
    using ne by (simp add: report_def msg_def)
  have eq: "strict_load RAISE_UNEXPECTED requested on_disk = ([], Inl (CheckpointingException msg))"
    using ne rep by (simp add: strict_load_def requires_missing_keys_def u_def [symmetric])
  have s1: "sublist ''Unexpected keys'' msg"
  proof -
    have "msg = [] @ ''Unexpected keys'' @ ('': '' @ join_keys u @ ''. '')"
      by (simp add: msg_def)
    then show ?thesis unfolding sublist_def by blast
  qed
  have s2: "sublist D msg"
  proof -
    have "sublist D (join_keys u)" using du by (rule sublist_join_keys)
    then obtain ps ss where "join_keys u = ps @ D @ ss" unfolding sublist_def by blast
    then have "msg = (''Unexpected keys: '' @ ps) @ D @ (ss @ ''. '')"
      by (simp add: msg_def)
    then show ?thesis unfolding sublist_def by blast
  qed
  have "CHR ''M'' \<notin> set (join_keys u)"
  proof
    assume "CHR ''M'' \<in> set (join_keys u)"
    then have "CHR ''M'' \<in> (\<Union>k \<in> set u. set k) \<union> set '', ''"
      using set_join_keys [of u] by blast
    then obtain k where "k \<in> set u" "CHR ''M'' \<in> set k" by auto
    then show False using m su by blast
  qed
  then have "CHR ''M'' \<notin> set msg" by (simp add: msg_def)
  then have s3: "\<not> sublist ''Missing keys'' msg" by (rule no_M_no_missing_keys)
  show ?thesis using eq s1 s2 s3 by blast
qed

text \<open>
  Claim C1, as amended. A load with the policy \<^verbatim>\<open>RETURN_ALL\<close> returns as missing the
  keys of the checkpoint that are not requested and as unexpected the requested keys that
  are not in the checkpoint: for the request \<open>{A, B, C}\<close> against a checkpoint that holds
  \<open>{A, B}\<close>, no key is missing and \<open>C\<close> is unexpected. For a request with a key \<open>D\<close> that
  is not in the checkpoint, the policy \<^verbatim>\<open>RAISE_UNEXPECTED\<close> raises an exception whose
  message contains \<^verbatim>\<open>Unexpected keys\<close> and names \<open>D\<close>, and does not contain
  \<^verbatim>\<open>Missing keys\<close> (no requested key being written with a capital M, which would bring
  the words in by a key's own name).
\<close>

theorem strict_key_reconciliation:
  "strict_load RETURN_ALL requested on_disk
     = ([], Inr (StateDictAndKeys (set on_disk - set requested) (set requested - set on_disk)))
   \<and> (distinct [A, B, C] \<longrightarrow>
        strict_load RETURN_ALL [A, B, C] [A, B] = ([], Inr (StateDictAndKeys {} {C})))
   \<and> (D \<in> set requested \<and> D \<notin> set on_disk \<and> (\<forall>k \<in> set requested. CHR ''M'' \<notin> set k) \<longrightarrow>
        (\<exists>msg. strict_load RAISE_UNEXPECTED requested on_disk
                 = ([], Inl (CheckpointingException msg))
               \<and> sublist ''Unexpected keys'' msg \<and> sublist D msg
               \<and> \<not> sublist ''Missing keys'' msg))"
proof (intro conjI impI)
  show "strict_load RETURN_ALL requested on_disk
     = ([], Inr (StateDictAndKeys (set on_disk - set requested) (set requested - set on_disk)))"
    by (rule strict_load_return_all)
next
  assume "distinct [A, B, C]"
  then have "set [A, B] - set [A, B, C] = {}" "set [A, B, C] - set [A, B] = {C}"
    by auto
  then show "strict_load RETURN_ALL [A, B, C] [A, B] = ([], Inr (StateDictAndKeys {} {C}))"
    by (simp only: strict_load_return_all)
next
  assume "D \<in> set requested \<and> D \<notin> set on_disk \<and> (\<forall>k \<in> set requested. CHR ''M'' \<notin> set k)"
  then show "\<exists>msg. strict_load RAISE_UNEXPECTED requested on_disk
                 = ([], Inl (CheckpointingException msg))
               \<and> sublist ''Unexpected keys'' msg \<and> sublist D msg
               \<and> \<not> sublist ''Missing keys'' msg"
    using strict_load_raise_unexpected [of D requested on_disk] by blast
qed

theorem strict_key_reconciliation_witness:
  "strict_load RETURN_ALL [''A'', ''B'', ''C''] [''A'', ''B'']
     = ([], Inr (StateDictAndKeys {} {''C''}))
   \<and> (\<exists>msg. strict_load RAISE_UNEXPECTED [''A'', ''D''] [''A'', ''B'']
                 = ([], Inl (CheckpointingException msg))
               \<and> sublist ''Unexpected keys'' msg \<and> sublist ''D'' msg
               \<and> \<not> sublist ''Missing keys'' msg)"
proof -
  have h1: "distinct [''A'', ''B'', ''C'']" by simp
  have h2: "''D'' \<in> set [''A'', ''D''] \<and> ''D'' \<notin> set [''A'', ''B'']
      \<and> (\<forall>k \<in> set [''A'', ''D'']. CHR ''M'' \<notin> set k)"
    by simp
  note t = strict_key_reconciliation [of "[''A'', ''D'']" "[''A'', ''B'']" "''A''" "''B''" "''C''" "''D''"]
  from t have a: "strict_load RETURN_ALL [''A'', ''B'', ''C''] [''A'', ''B'']
     = ([], Inr (StateDictAndKeys {} {''C''}))"
    using h1 by blast
  from t have b: "\<exists>msg. strict_load RAISE_UNEXPECTED [''A'', ''D''] [''A'', ''B'']
                 = ([], Inl (CheckpointingException msg))
               \<and> sublist ''Unexpected keys'' msg \<and> sublist ''D'' msg
               \<and> \<not> sublist ''Missing keys'' msg"
    using h2 by blast
  show ?thesis using a b by (rule conjI)
qed

text \<open>
  Claim C1 as it was stated, with \<open>C\<close> returned as missing and nothing as unexpected,
  fails: \<open>C\<close> is returned as unexpected and nothing as missing, as in the test
  \<^verbatim>\<open>test_unexpected_keys_handling_during_validation\<close>.
\<close>

theorem strict_key_reconciliation_counterexample:
  "strict_load RETURN_ALL [''A'', ''B'', ''C''] [''A'', ''B'']
     = ([], Inr (StateDictAndKeys {} {''C''}))
   \<and> StateDictAndKeys {} {''C''} \<noteq> StateDictAndKeys {''C''} {}"
proof -
  have "set [''A'', ''B''] - set [''A'', ''B'', ''C''] = {}"
    "set [''A'', ''B'', ''C''] - set [''A'', ''B''] = {''C''}"
    by auto
  then have "strict_load RETURN_ALL [''A'', ''B'', ''C''] [''A'', ''B'']
     = ([], Inr (StateDictAndKeys {} {''C''}))"
    by (simp only: strict_load_return_all)
  then show ?thesis by simp
qed

subsection \<open>Loading a tensor of another global extent\<close>

text \<open>
  The global array \<open>g\<close> of \<open>k * c\<close> elements is saved by \<open>k\<close> ranks, \<open>c\<close> elements each,
  as in \<^verbatim>\<open>test_tensor_shape_mismatch\<close>. The checkpoint then holds, for the key, the extent
  of \<open>g\<close> and the \<open>k\<close> shards in the order of the ranks, and copying them into a zeroed
  buffer gives the part of \<open>g\<close> in the requested region.
\<close>

lemma length_chunk:
  "length g = k * c \<Longrightarrow> r < k \<Longrightarrow> length (take c (drop (r * c) g)) = c"
proof -
  assume a: "length g = k * c" "r < k"
  then have "Suc r \<le> k" by simp
  then have "Suc r * c \<le> k * c" by (rule mult_le_mono1)
  then have "r * c + c \<le> length g" using a by simp
  then show ?thesis by simp
qed

lemma nth_chunk:
  "length g = k * c \<Longrightarrow> r < k \<Longrightarrow> i < c \<Longrightarrow> take c (drop (r * c) g) ! i = g ! (r * c + i)"
proof -
  assume a: "length g = k * c" "r < k" "i < c"
  then have "Suc r \<le> k" by simp
  then have "Suc r * c \<le> k * c" by (rule mult_le_mono1)
  then have "r * c + i < length g" using a by simp
  then show ?thesis using a(3) by simp
qed

lemma shards_of_all_main:
  "filter (is_main_replica (shards_of ky g c k fl)) (shards_of ky g c k fl) = shards_of ky g c k fl"
  by (rule filter_True) (auto simp: is_main_replica_def shards_of_def from_rank_offsets_def)

lemma save_tensor_at_key:
  "save_tensor t ck (key t)
     = Some (case ck (key t) of
               None \<Rightarrow> \<lparr> disk_global_shape = global_shape t,
                         disk_shards = [(global_offset t, data t)] \<rparr>
             | Some d \<Rightarrow> d \<lparr> disk_shards := disk_shards d @ [(global_offset t, data t)] \<rparr>)"
  by (simp add: save_tensor_def)

lemma save_tensor_other_key: "a \<noteq> key t \<Longrightarrow> save_tensor t ck a = ck a"
  by (simp add: save_tensor_def)

lemma save_shards_prefix:
  assumes len: "length g = k * c" and j: "j \<le> k"
  shows "foldl (\<lambda>ck t. save_tensor t ck) Map.empty
           (map (\<lambda>r. from_rank_offsets ky (take c (drop (r * c) g)) r k 0 fl) [0..<j]) ky
         = (if j = 0 then None
            else Some \<lparr> disk_global_shape = k * c,
                        disk_shards = map (\<lambda>r. (r * c, take c (drop (r * c) g))) [0..<j] \<rparr>)"
proof -
  define f where "f = (\<lambda>r. from_rank_offsets ky (take c (drop (r * c) g)) r k 0 fl)"
  define sv where "sv = (\<lambda>j. foldl (\<lambda>ck t. save_tensor t ck) Map.empty (map f [0..<j]))"
  have fld: "key (f r) = ky" "data (f r) = take c (drop (r * c) g)" for r
    by (simp_all add: f_def from_rank_offsets_def)
  have shp: "global_shape (f r) = k * c" "global_offset (f r) = r * c" if "r < k" for r
    using length_chunk [OF len that] by (simp_all add: f_def from_rank_offsets_def)
  have sv0: "sv 0 = Map.empty" by (simp add: sv_def)
  have svS: "sv (Suc j) = save_tensor (f j) (sv j)" for j by (simp add: sv_def)
  have "sv j ky
         = (if j = 0 then None
            else Some \<lparr> disk_global_shape = k * c,
                        disk_shards = map (\<lambda>r. (r * c, take c (drop (r * c) g))) [0..<j] \<rparr>)"
    using j
  proof (induction j)
    case 0
    then show ?case by (simp add: sv0)
  next
    case (Suc j)
    then have jk: "j < k" and IH: "sv j ky
         = (if j = 0 then None
            else Some \<lparr> disk_global_shape = k * c,
                        disk_shards = map (\<lambda>r. (r * c, take c (drop (r * c) g))) [0..<j] \<rparr>)"
      by simp_all
    have "sv (Suc j) ky = save_tensor (f j) (sv j) (key (f j))"
      by (simp only: svS fld)
    also have "\<dots> = Some (case sv j ky of
               None \<Rightarrow> \<lparr> disk_global_shape = k * c,
                         disk_shards = [(j * c, take c (drop (j * c) g))] \<rparr>
             | Some d \<Rightarrow> d \<lparr> disk_shards := disk_shards d @ [(j * c, take c (drop (j * c) g))] \<rparr>)"
      using save_tensor_at_key [of "f j" "sv j"] by (simp only: fld shp [OF jk])
    finally show ?case
      using IH by (cases "j = 0") simp_all
  qed
  then show ?thesis unfolding sv_def f_def .
qed

lemma save_shards_of:
  assumes len: "length g = k * c" and k: "0 < k"
  shows "save_tensors (shards_of ky g c k fl) ky
         = Some \<lparr> disk_global_shape = length g,
                  disk_shards = map (\<lambda>r. (r * c, take c (drop (r * c) g))) [0..<k] \<rparr>"
proof -
  have "save_tensors (shards_of ky g c k fl) ky
      = foldl (\<lambda>ck t. save_tensor t ck) Map.empty (shards_of ky g c k fl) ky"
    unfolding save_tensors_def shards_of_all_main ..
  also have "\<dots> = Some \<lparr> disk_global_shape = k * c,
                  disk_shards = map (\<lambda>r. (r * c, take c (drop (r * c) g))) [0..<k] \<rparr>"
    unfolding shards_of_def using save_shards_prefix [OF len order_refl, of ky fl] k by simp
  finally show ?thesis using len by simp
qed

lemma copy_shard_map:
  "length ch = c \<Longrightarrow>
   copy_shard off (s, ch) (map h [0..<n])
     = map (\<lambda>i. if s \<le> off + i \<and> off + i < s + c then ch ! (off + i - s) else h i) [0..<n]"
  by (auto simp: copy_shard_def Let_def)

lemma copy_shards_prefix:
  assumes len: "length g = k * c" and j: "j \<le> k"
  shows "foldl (\<lambda>buffer shard. copy_shard off shard buffer) (replicate n 0)
           (map (\<lambda>r. (r * c, take c (drop (r * c) g))) [0..<j])
         = map (\<lambda>i. if off + i < j * c then g ! (off + i) else 0) [0..<n]"
  using j
proof (induction j)
  case 0
  then show ?case by (simp add: map_replicate_trivial)
next
  case (Suc j)
  then have jk: "j < k" and IH: "foldl (\<lambda>buffer shard. copy_shard off shard buffer) (replicate n 0)
           (map (\<lambda>r. (r * c, take c (drop (r * c) g))) [0..<j])
         = map (\<lambda>i. if off + i < j * c then g ! (off + i) else 0) [0..<n]"
    by simp_all
  have lc: "length (take c (drop (j * c) g)) = c"
    using len jk by (rule length_chunk)
  have pt: "(if j * c \<le> off + i \<and> off + i < j * c + c
             then take c (drop (j * c) g) ! (off + i - j * c)
             else if off + i < j * c then g ! (off + i) else 0)
          = (if off + i < Suc j * c then g ! (off + i) else 0)" for i
  proof (cases "j * c \<le> off + i \<and> off + i < j * c + c")
    case True
    then have "off + i - j * c < c" by arith
    then have "take c (drop (j * c) g) ! (off + i - j * c) = g ! (j * c + (off + i - j * c))"
      using len jk by (intro nth_chunk)
    moreover have "j * c + (off + i - j * c) = off + i" using True by arith
    ultimately have "take c (drop (j * c) g) ! (off + i - j * c) = g ! (off + i)" by simp
    then show ?thesis using True by simp
  next
    case False
    then show ?thesis by auto
  qed
  have step: "copy_shard off (j * c, take c (drop (j * c) g))
                (map (\<lambda>i. if off + i < j * c then g ! (off + i) else 0) [0..<n])
            = map (\<lambda>i. if off + i < Suc j * c then g ! (off + i) else 0) [0..<n]"
    by (simp only: copy_shard_map [OF lc] pt)
  have "foldl (\<lambda>buffer shard. copy_shard off shard buffer) (replicate n 0)
           (map (\<lambda>r. (r * c, take c (drop (r * c) g))) [0..<Suc j])
        = copy_shard off (j * c, take c (drop (j * c) g))
            (foldl (\<lambda>buffer shard. copy_shard off shard buffer) (replicate n 0)
               (map (\<lambda>r. (r * c, take c (drop (r * c) g))) [0..<j]))"
    by simp
  then show ?case
    by (simp only: IH step)
qed

text \<open>
  Claim C7. A sharded tensor requested with \<^verbatim>\<open>allow_shape_mismatch\<close> loads, whatever
  global extent it declares, the elements of the saved array that lie in its region,
  and zero where its region lies beyond the saved array: against a smaller extent on
  disk the region that is not covered is filled with zeros, against a larger one the
  array is cropped to the request. The same request without the flag, with a global
  extent other than the one on disk, raises a \<^verbatim>\<open>CheckpointingException\<close>.
\<close>

theorem load_with_shape_mismatch:
  assumes len: "length g = k * c" and k: "0 < k" and ky: "key req = ky"
  shows "(allow_shape_mismatch req \<longrightarrow>
            load_tensor req (save_tensors (shards_of ky g c k fl))
              = Inr (map (\<lambda>i. if global_offset req + i < length g
                               then g ! (global_offset req + i) else 0)
                       [0..<length (data req)]))
       \<and> (\<not> allow_shape_mismatch req \<and> global_shape req \<noteq> length g \<longrightarrow>
            load_tensor req (save_tensors (shards_of ky g c k fl))
              = Inl (CheckpointingException ky))"
proof -
  note sv = save_shards_of [OF len k, of ky fl]
  have cp: "foldl (\<lambda>buffer shard. copy_shard (global_offset req) shard buffer)
              (replicate (length (data req)) 0)
              (map (\<lambda>r. (r * c, take c (drop (r * c) g))) [0..<k])
         = map (\<lambda>i. if global_offset req + i < length g
                               then g ! (global_offset req + i) else 0)
                       [0..<length (data req)]"
    using copy_shards_prefix [OF len order_refl, of "global_offset req" "length (data req)"] len
    by simp
  show ?thesis
    using cp by (simp add: load_tensor_def ky sv)
qed

text \<open>
  The requests of \<^verbatim>\<open>test_tensor_shape_mismatch\<close> of the last of four pipeline ranks:
  \<open>range(32)\<close> saved by 8 ranks, loaded as 4 shards of 9 and of 7 elements.
\<close>

theorem load_with_shape_mismatch_witness:
  "load_tensor (from_rank_offsets ''keyB'' (replicate 9 1) 3 4 0 True)
       (save_tensors (shards_of ''keyB'' (map int [0..<32]) 4 8 True))
     = Inr [27, 28, 29, 30, 31, 0, 0, 0, 0]
   \<and> load_tensor (from_rank_offsets ''keyB'' (replicate 7 1) 3 4 0 True)
       (save_tensors (shards_of ''keyB'' (map int [0..<32]) 4 8 True))
     = Inr [21, 22, 23, 24, 25, 26, 27]
   \<and> load_tensor (from_rank_offsets ''keyA'' (replicate 9 1) 3 4 0 False)
       (save_tensors (shards_of ''keyA'' (map int [0..<32]) 4 8 False))
     = Inl (CheckpointingException ''keyA'')
   \<and> load_tensor (from_rank_offsets ''keyA'' (replicate 7 1) 3 4 0 False)
       (save_tensors (shards_of ''keyA'' (map int [0..<32]) 4 8 False))
     = Inl (CheckpointingException ''keyA'')"
proof -
  define g :: "int list" where "g = map int [0..<32]"
  define b9 where "b9 = from_rank_offsets ''keyB'' (replicate 9 1) 3 4 0 True"
  define b7 where "b7 = from_rank_offsets ''keyB'' (replicate 7 1) 3 4 0 True"
  define a9 where "a9 = from_rank_offsets ''keyA'' (replicate 9 1) 3 4 0 False"
  define a7 where "a7 = from_rank_offsets ''keyA'' (replicate 7 1) 3 4 0 False"
  have len: "length g = 8 * 4" by (simp add: g_def)
  have k: "(0::nat) < 8" by simp
  have fb9: "key b9 = ''keyB''" "allow_shape_mismatch b9"
    by (simp_all add: b9_def from_rank_offsets_def)
  have fb7: "key b7 = ''keyB''" "allow_shape_mismatch b7"
    by (simp_all add: b7_def from_rank_offsets_def)
  have fa9: "key a9 = ''keyA''" "\<not> allow_shape_mismatch a9" "global_shape a9 \<noteq> length g"
    by (simp_all add: a9_def g_def from_rank_offsets_def)
  have fa7: "key a7 = ''keyA''" "\<not> allow_shape_mismatch a7" "global_shape a7 \<noteq> length g"
    by (simp_all add: a7_def g_def from_rank_offsets_def)
  have v9: "map (\<lambda>i. if global_offset b9 + i < length g then g ! (global_offset b9 + i) else 0)
              [0..<length (data b9)] = [27, 28, 29, 30, 31, 0, 0, 0, 0]"
    unfolding b9_def g_def by code_simp
  have v7: "map (\<lambda>i. if global_offset b7 + i < length g then g ! (global_offset b7 + i) else 0)
              [0..<length (data b7)] = [21, 22, 23, 24, 25, 26, 27]"
    unfolding b7_def g_def by code_simp
  have r9: "load_tensor b9 (save_tensors (shards_of ''keyB'' g 4 8 True))
             = Inr [27, 28, 29, 30, 31, 0, 0, 0, 0]"
    using load_with_shape_mismatch [OF len k fb9(1), of True] fb9(2) by (simp only: v9)
  have r7: "load_tensor b7 (save_tensors (shards_of ''keyB'' g 4 8 True))
             = Inr [21, 22, 23, 24, 25, 26, 27]"
    using load_with_shape_mismatch [OF len k fb7(1), of True] fb7(2) by (simp only: v7)
  have e9: "load_tensor a9 (save_tensors (shards_of ''keyA'' g 4 8 False))
             = Inl (CheckpointingException ''keyA'')"
    using load_with_shape_mismatch [OF len k fa9(1), of False] fa9(2,3) by blast
  have e7: "load_tensor a7 (save_tensors (shards_of ''keyA'' g 4 8 False))
             = Inl (CheckpointingException ''keyA'')"
    using load_with_shape_mismatch [OF len k fa7(1), of False] fa7(2,3) by blast
  show ?thesis
    using r9 r7 e9 e7 unfolding g_def b9_def b7_def a9_def a7_def by blast
qed

subsection \<open>Factories\<close>

text \<open>
  What is saved under a key depends on the tensors of that key only, and a tensor saved
  whole by one rank loads as it was saved.
\<close>

lemma save_fold_key_only:
  "ck0 a = ck1 a \<Longrightarrow>
   foldl (\<lambda>ck t. save_tensor t ck) ck0 ts a
     = foldl (\<lambda>ck t. save_tensor t ck) ck1 (filter (\<lambda>t. key t = a) ts) a"
proof (induction ts arbitrary: ck0 ck1)
  case Nil
  then show ?case by simp
next
  case (Cons t ts)
  show ?case
  proof (cases "key t = a")
    case True
    have "save_tensor t ck0 a = save_tensor t ck1 a"
      using Cons.prems True save_tensor_at_key [of t ck0] save_tensor_at_key [of t ck1] by simp
    then have "foldl (\<lambda>ck t. save_tensor t ck) (save_tensor t ck0) ts a
       = foldl (\<lambda>ck t. save_tensor t ck) (save_tensor t ck1) (filter (\<lambda>t. key t = a) ts) a"
      by (rule Cons.IH)
    then show ?thesis using True by simp
  next
    case False
    then have "save_tensor t ck0 a = ck1 a"
      using Cons.prems by (simp add: save_tensor_other_key)
    then have "foldl (\<lambda>ck t. save_tensor t ck) (save_tensor t ck0) ts a
       = foldl (\<lambda>ck t. save_tensor t ck) ck1 (filter (\<lambda>t. key t = a) ts) a"
      by (rule Cons.IH)
    then show ?thesis using False by simp
  qed
qed

lemma save_tensors_single:
  assumes a: "\<forall>u \<in> set xs. key u \<noteq> key t" and b: "\<forall>u \<in> set ys. key u \<noteq> key t"
  shows "save_tensors (xs @ t # ys) (key t)
         = Some \<lparr> disk_global_shape = global_shape t,
                  disk_shards = [(global_offset t, data t)] \<rparr>"
proof -
  define ts where "ts = xs @ t # ys"
  have main: "is_main_replica ts t"
    using a b by (auto simp: is_main_replica_def ts_def)
  have fx: "filter (\<lambda>u. key u = key t) (filter (is_main_replica ts) xs) = []"
    using a by (simp add: filter_empty_conv)
  have fy: "filter (\<lambda>u. key u = key t) (filter (is_main_replica ts) ys) = []"
    using b by (simp add: filter_empty_conv)
  have "filter (\<lambda>u. key u = key t) (filter (is_main_replica ts) ts)
      = filter (\<lambda>u. key u = key t) (filter (is_main_replica ts) xs)
        @ t # filter (\<lambda>u. key u = key t) (filter (is_main_replica ts) ys)"
    using main by (simp add: ts_def)
  then have sel: "filter (\<lambda>u. key u = key t) (filter (is_main_replica ts) ts) = [t]"
    by (simp only: fx fy append_Nil)
  have "save_tensors ts (key t)
      = foldl (\<lambda>ck t. save_tensor t ck) Map.empty
          (filter (\<lambda>u. key u = key t) (filter (is_main_replica ts) ts)) (key t)"
    unfolding save_tensors_def by (rule save_fold_key_only) simp
  also have "\<dots> = save_tensor t Map.empty (key t)"
    by (simp only: sel foldl.simps)
  also have "\<dots> = Some \<lparr> disk_global_shape = global_shape t,
                  disk_shards = [(global_offset t, data t)] \<rparr>"
    by (simp add: save_tensor_at_key)
  finally show ?thesis unfolding ts_def .
qed

lemma copy_whole_shard:
  "copy_shard 0 (0, base) (replicate (length base) 0) = base"
  by (rule nth_equalityI) (simp_all add: copy_shard_def Let_def)

lemma load_whole_tensor:
  assumes "ck (key t) = Some \<lparr> disk_global_shape = length base, disk_shards = [(0, base)] \<rparr>"
    and "global_shape t = length base" and "global_offset t = 0"
    and "length (data t) = length base"
  shows "load_tensor t ck = Inr base"
  using assms by (simp add: load_tensor_def copy_whole_shard)

lemma py_sum_three: "py_sum [b, b, b] = Tensor (map (\<lambda>x. 3 * x) b)"
proof -
  have a: "map (\<lambda>y. 0 + y) b = b"
    by (rule map_idI) simp
  have c: "map2 (+) (map2 (+) b b) b = map (\<lambda>x. 3 * x) b"
    by (rule nth_equalityI) simp_all
  show ?thesis by (simp add: py_sum_def a c)
qed

text \<open>
  Claim C8. A \<^verbatim>\<open>ShardedTensorFactory\<close> whose build function makes three sharded tensors
  with keys of their own, each the base tensor, and whose merge function is \<^verbatim>\<open>sum\<close>,
  saved among other entries with other keys and loaded with a request of the same
  shape, gives three times the base tensor.
\<close>

theorem factory_merge_sum:
  assumes f: "f = \<lparr> factory_key = ky, factory_data = base, build_fn = build_three_parts,
                      merge_fn = py_sum, factory_replica_id = r \<rparr>"
    and req: "length other = length base"
    and pre: "\<forall>t \<in> set (apply_factories pre).
                key t \<notin> {ky @ ''part1'', ky @ ''part2'', ky @ ''part3''}"
    and post: "\<forall>t \<in> set (apply_factories post).
                key t \<notin> {ky @ ''part1'', ky @ ''part2'', ky @ ''part3''}"
  shows "load_entry (Fac (f \<lparr> factory_data := other \<rparr>)) (save_state (pre @ Fac f # post))
         = Inr (Tensor (map (\<lambda>x. 3 * x) base))"
proof -
  define t1 where "t1 = from_rank_offsets (ky @ ''part1'') base 0 1 r False"
  define t2 where "t2 = from_rank_offsets (ky @ ''part2'') base 0 1 r False"
  define t3 where "t3 = from_rank_offsets (ky @ ''part3'') base 0 1 r False"
  define q1 where "q1 = from_rank_offsets (ky @ ''part1'') other 0 1 r False"
  define q2 where "q2 = from_rank_offsets (ky @ ''part2'') other 0 1 r False"
  define q3 where "q3 = from_rank_offsets (ky @ ''part3'') other 0 1 r False"
  define xs where "xs = apply_factories pre"
  define ys where "ys = apply_factories post"
  define ck where "ck = save_state (pre @ Fac f # post)"
  define f' where "f' = f \<lparr> factory_data := other \<rparr>"
  have kt: "key t1 = ky @ ''part1''" "key t2 = ky @ ''part2''" "key t3 = ky @ ''part3''"
    by (simp_all add: t1_def t2_def t3_def from_rank_offsets_def)
  have ft: "global_shape t1 = length base" "global_offset t1 = 0" "data t1 = base"
    "global_shape t2 = length base" "global_offset t2 = 0" "data t2 = base"
    "global_shape t3 = length base" "global_offset t3 = 0" "data t3 = base"
    by (simp_all add: t1_def t2_def t3_def from_rank_offsets_def)
  have kq: "key q1 = ky @ ''part1''" "key q2 = ky @ ''part2''" "key q3 = ky @ ''part3''"
    by (simp_all add: q1_def q2_def q3_def from_rank_offsets_def)
  have fq: "global_shape q1 = length base" "global_offset q1 = 0" "length (data q1) = length base"
    "global_shape q2 = length base" "global_offset q2 = 0" "length (data q2) = length base"
    "global_shape q3 = length base" "global_offset q3 = 0" "length (data q3) = length base"
    using req by (simp_all add: q1_def q2_def q3_def from_rank_offsets_def)
  have bf: "build f = [t1, t2, t3]"
    by (simp add: f build_def build_three_parts_def t1_def t2_def t3_def)
  have bq: "build f' = [q1, q2, q3]"
    by (simp add: f'_def f build_def build_three_parts_def q1_def q2_def q3_def)
  have mf: "merge_fn f' = py_sum"
    by (simp add: f'_def f)
  have ck: "ck = save_tensors (xs @ [t1, t2, t3] @ ys)"
    by (simp add: ck_def save_state_def apply_factories_def xs_def ys_def bf)
  have px: "\<forall>u \<in> set xs. key u \<noteq> ky @ ''part1'' \<and> key u \<noteq> ky @ ''part2'' \<and> key u \<noteq> ky @ ''part3''"
    using pre by (simp add: xs_def)
  have py: "\<forall>u \<in> set ys. key u \<noteq> ky @ ''part1'' \<and> key u \<noteq> ky @ ''part2'' \<and> key u \<noteq> ky @ ''part3''"
    using post by (simp add: ys_def)
  have s1: "ck (key t1) = Some \<lparr> disk_global_shape = length base, disk_shards = [(0, base)] \<rparr>"
  proof -
    have "save_tensors (xs @ t1 # ([t2, t3] @ ys)) (key t1)
         = Some \<lparr> disk_global_shape = global_shape t1,
                  disk_shards = [(global_offset t1, data t1)] \<rparr>"
      using px py by (intro save_tensors_single) (simp_all add: kt)
    then show ?thesis by (simp add: ck ft)
  qed
  have s2: "ck (key t2) = Some \<lparr> disk_global_shape = length base, disk_shards = [(0, base)] \<rparr>"
  proof -
    have "save_tensors ((xs @ [t1]) @ t2 # ([t3] @ ys)) (key t2)
         = Some \<lparr> disk_global_shape = global_shape t2,
                  disk_shards = [(global_offset t2, data t2)] \<rparr>"
      using px py by (intro save_tensors_single) (simp_all add: kt)
    then show ?thesis by (simp add: ck ft)
  qed
  have s3: "ck (key t3) = Some \<lparr> disk_global_shape = length base, disk_shards = [(0, base)] \<rparr>"
  proof -
    have "save_tensors ((xs @ [t1, t2]) @ t3 # ys) (key t3)
         = Some \<lparr> disk_global_shape = global_shape t3,
                  disk_shards = [(global_offset t3, data t3)] \<rparr>"
      using px py by (intro save_tensors_single) (simp_all add: kt)
    then show ?thesis by (simp add: ck ft)
  qed
  have l1: "load_tensor q1 ck = Inr base"
    using s1 fq by (intro load_whole_tensor) (simp_all add: kt kq)
  have l2: "load_tensor q2 ck = Inr base"
    using s2 fq by (intro load_whole_tensor) (simp_all add: kt kq)
  have l3: "load_tensor q3 ck = Inr base"
    using s3 fq by (intro load_whole_tensor) (simp_all add: kt kq)
  have "load_tensors [q1, q2, q3] ck = Inr [base, base, base]"
    by (simp add: l1 l2 l3)
  then have "load_entry (Fac f') ck = Inr (py_sum [base, base, base])"
    by (simp add: load_entry_def bq mf)
  then show ?thesis
    unfolding ck_def f'_def by (simp only: py_sum_three)
qed

text \<open>
  The state dict of \<^verbatim>\<open>test_can_mix_sharded_tensors_and_factories\<close>: three tensors and the
  factory \<open>D\<close> of \<open>arange(5)\<close>, loaded with a request based at 10.
\<close>

theorem factory_merge_sum_witness:
  "load_entry
     (Fac \<lparr> factory_key = ''D'', factory_data = [10, 11, 12, 13, 14],
            build_fn = build_three_parts, merge_fn = py_sum, factory_replica_id = 0 \<rparr>)
     (save_state
        [Ten (from_rank_offsets ''A'' [0, 1] 0 1 0 False),
         Ten (from_rank_offsets ''B'' [0, 1, 2] 0 1 0 False),
         Ten (from_rank_offsets ''C'' [0, 1, 2, 3] 0 1 0 False),
         Fac \<lparr> factory_key = ''D'', factory_data = [0, 1, 2, 3, 4],
                build_fn = build_three_parts, merge_fn = py_sum, factory_replica_id = 0 \<rparr>])
   = Inr (Tensor [0, 3, 6, 9, 12])"
proof -
  define f where "f = \<lparr> factory_key = ''D'', factory_data = [0, 1, 2, 3, 4 :: int],
                build_fn = build_three_parts, merge_fn = py_sum, factory_replica_id = 0 \<rparr>"
  define pre where "pre = [Ten (from_rank_offsets ''A'' [0, 1] 0 1 0 False),
         Ten (from_rank_offsets ''B'' [0, 1, 2] 0 1 0 False),
         Ten (from_rank_offsets ''C'' [0, 1, 2, 3] 0 1 0 False)]"
  have h1: "length [10, 11, 12, 13, 14 :: int] = length [0, 1, 2, 3, 4 :: int]" by simp
  have h2: "\<forall>t \<in> set (apply_factories pre).
                key t \<notin> {''D'' @ ''part1'', ''D'' @ ''part2'', ''D'' @ ''part3''}"
    by (simp add: pre_def apply_factories_def from_rank_offsets_def)
  have h3: "\<forall>t \<in> set (apply_factories []).
                key t \<notin> {''D'' @ ''part1'', ''D'' @ ''part2'', ''D'' @ ''part3''}"
    by (simp add: apply_factories_def)
  have "load_entry (Fac (f \<lparr> factory_data := [10, 11, 12, 13, 14] \<rparr>)) (save_state (pre @ Fac f # []))
         = Inr (Tensor (map (\<lambda>x. 3 * x) [0, 1, 2, 3, 4]))"
    using f_def h1 h2 h3 by (rule factory_merge_sum)
  then show ?thesis
    by (simp add: f_def pre_def)
qed

end
